theory Spec2Isabelle
  imports Main "HOL-Library.Word"
begin

unbundle bit_operations_syntax

section \<open>Protocol codec (const.py)\<close>

text \<open>
  A Python \<open>bytes\<close> value is a sequence of integers in \<open>0..255\<close>: a list of 8-bit
  words. Python's own integers are unbounded and are modelled by \<open>int\<close>; on \<open>int\<close>,
  \<open>drop_bit\<close> and \<open>AND\<close> are Python's \<open>>>\<close> and \<open>&\<close> (two's complement,
  rounding towards minus infinity).
\<close>

type_synonym byte = "8 word"
type_synonym bytes = "byte list"

datatype error =
  ValueError | IndexError | AttributeError | BleakError | TimeoutError | UpdateFailed

text \<open>
  The constructor \<open>bytes(xs)\<close> of a list of integers raises \<open>ValueError\<close> when an
  element is outside \<open>range(256)\<close>.
\<close>

definition py_bytes :: "int list \<Rightarrow> error + bytes" where
  "py_bytes xs =
     (if list_all (\<lambda>x. 0 \<le> x \<and> x < 256) xs then Inr (map word_of_int xs)
      else Inl ValueError)"

definition MIN_TIMER_DURATION :: int where "MIN_TIMER_DURATION = 1"
definition MAX_TIMER_DURATION :: int where "MAX_TIMER_DURATION = 60"
definition DEFAULT_TIMER_DURATION :: int where "DEFAULT_TIMER_DURATION = 15"

definition TURN_ON_CMD :: bytes where
  "TURN_ON_CMD = [0x3A, 0x01, 0x20, 0x00, 0x01, 0x01, 0x23, 0x0A]"

definition TURN_OFF_CMD :: bytes where
  "TURN_OFF_CMD = [0x3A, 0x01, 0x20, 0x00, 0x01, 0x00, 0x22, 0x0A]"

definition STATUS_QUERY_CMD :: bytes where
  "STATUS_QUERY_CMD = [0x3A, 0x01, 0x10, 0x00, 0x00, 0x11, 0x0A]"

definition RESPONSE_START_BYTE :: int where "RESPONSE_START_BYTE = 0x2A"
definition POWER_CMD_TYPE :: int where "POWER_CMD_TYPE = 0x20"
definition STATUS_CMD_TYPE :: int where "STATUS_CMD_TYPE = 0x10"
definition TIMER_CMD_TYPE :: int where "TIMER_CMD_TYPE = 0x31"

text \<open>
  \<open>create_timer_command(minutes)\<close>: no check of \<open>minutes\<close>; the only statement that
  can raise is the final \<open>bytes(cmd)\<close>. \<open>cmd[1:]\<close> is \<open>drop 1 cmd\<close>.
\<close>

definition create_timer_command :: "int \<Rightarrow> error + bytes" where
  "create_timer_command minutes =
     (let seconds = minutes * 60;
          timer_high = (drop_bit 8 seconds) AND 0xFF;
          timer_low = seconds AND 0xFF;
          cmd = [0x3A, 0x01, 0x31, 0x00, 0x02, timer_high, timer_low];
          checksum = sum_list (drop 1 cmd) AND 0xFF;
          cmd = cmd @ [checksum];
          cmd = cmd @ [0x0A]
      in py_bytes cmd)"

subsection \<open>The frame format as the specification words it\<close>

text \<open>
  The frame of an opcode and a payload, following the specification: start byte,
  \<open>0x01\<close>, opcode, \<open>0x00\<close>, payload length, payload, checksum, terminator; the checksum
  is the sum, modulo 256, of the bytes from index 1 through the end of the payload.
\<close>

definition spec_checksum :: "bytes \<Rightarrow> byte" where
  "spec_checksum body = of_nat (sum_list (map unat body) mod 256)"

definition spec_frame :: "byte \<Rightarrow> bytes \<Rightarrow> bytes" where
  "spec_frame opcode payload =
     [0x3A] @ ([0x01, opcode, 0x00, of_nat (length payload)] @ payload)
       @ [spec_checksum ([0x01, opcode, 0x00, of_nat (length payload)] @ payload), 0x0A]"

text \<open>
  Reading a frame back: its checksum byte is the one before the terminator, and the
  sum over opcode, length and payload only leaves out the first two bytes, the checksum
  and the terminator.
\<close>

definition frame_checksum :: "bytes \<Rightarrow> nat" where
  "frame_checksum f = unat (f ! (length f - 2))"

definition sum_opcode_len_payload :: "bytes \<Rightarrow> nat" where
  "sum_opcode_len_payload f = sum_list (map unat (take (length f - 4) (drop 2 f)))"

definition sum_after_start :: "bytes \<Rightarrow> nat" where
  "sum_after_start f = sum_list (map unat (take (length f - 3) (drop 1 f)))"

section \<open>Coordinator state (coordinator.py)\<close>

text \<open>
  The coordinator object and the part of its environment that its methods act on.
  \<^item> \<open>client\<close> is \<open>self._client\<close>: \<open>None\<close>, or a client object whose
    \<open>is_connected\<close> is the boolean.
  \<^item> A \<open>TimerHandle\<close> is the number the event loop gave it; \<open>scheduled\<close> holds the
    callbacks of the loop that are still pending (handle, delay in seconds, callback).
    \<open>handle.cancel()\<close> removes the entry and does nothing to a handle that has fired
    or was cancelled. A field holding any handle, pending or not, is truthy.
  \<^item> \<open>tasks\<close> are the coroutines handed to \<open>asyncio.create_task\<close>, not yet run.
  \<^item> \<open>trace\<close> records, in order, what an observer outside sees: the frames written to
    the write characteristic, the sleeps (in milliseconds), the payloads of
    \<open>async_set_updated_data\<close>, which notifies the listeners, and what \<open>_disconnected\<close>
    logs (\<open>LogDisconnect True\<close> for an expected disconnect, \<open>False\<close> for the warning of
    an unexpected one): the log is the one thing the flag \<open>_expected_disconnect\<close> decides.
  \<^item> \<open>write_calls\<close> counts the calls of \<open>write_gatt_char\<close>; \<open>clock\<close> is the reading of
    \<open>time.time()\<close>.
  No other logging is modelled. Every coroutine is run to its end without an independent
  callback in between: what the event loop interleaves are separate operations of the
  model. The callback \<open>_disconnected\<close> that \<open>client.disconnect()\<close> itself brings about is
  part of that call.

  The source schedules two callbacks, the countdown tick and the idle disconnect. It also
  keeps a handle \<open>_auto_off_timer\<close>, which it cancels in three places and never sets, and
  the coroutine \<open>_auto_turn_off\<close> that such a timer would start; \<open>AutoTurnOff\<close> stands for
  that callback, so that a state with an auto-off timer pending can be written down.
\<close>

datatype callback = UpdateCountdown | CreateDisconnectTask | AutoTurnOff

datatype task = DisconnectTask | QueryAndDisconnectTask | AutoTurnOffTask

datatype event = Write bytes | Sleep nat | Updated bool "int option" | LogDisconnect bool

record coordinator =
  client :: "bool option"
  disconnect_timer :: "nat option"
  is_on :: bool
  expected_disconnect :: bool
  auto_off_timer :: "nat option"
  timer_duration :: int
  timer_remaining :: int
  countdown_timer :: "nat option"
  countdown_start_time :: "nat option"
  scheduled :: "(nat \<times> nat \<times> callback) list"
  next_handle :: nat
  tasks :: "task list"
  trace :: "event list"
  write_calls :: nat
  clock :: nat

text \<open>
  The transport (bleak), as far as the coordinator's control flow depends on it: whether
  \<open>establish_connection\<close> and \<open>start_notify\<close> raise, and what the k-th call of
  \<open>write_gatt_char\<close> raises (\<open>None\<close>: it returns).
\<close>

record transport =
  establish :: "error option"
  start_notify :: "error option"
  write_result :: "nat \<Rightarrow> error option"

type_synonym outcome = "error option \<times> coordinator"

definition DISCONNECT_DELAY :: nat where "DISCONNECT_DELAY = 120"
definition COUNTDOWN_INTERVAL :: nat where "COUNTDOWN_INTERVAL = 1"

text \<open>\<open>__init__\<close>, on a loop that has scheduled nothing yet.\<close>

definition init :: coordinator where
  "init = \<lparr> client = None, disconnect_timer = None, is_on = False,
            expected_disconnect = False, auto_off_timer = None,
            timer_duration = DEFAULT_TIMER_DURATION, timer_remaining = 0,
            countdown_timer = None, countdown_start_time = None,
            scheduled = [], next_handle = 0, tasks = [], trace = [], write_calls = 0,
            clock = 0 \<rparr>"

subsection \<open>The event loop and the observers\<close>

definition call_later :: "nat \<Rightarrow> callback \<Rightarrow> coordinator \<Rightarrow> nat \<times> coordinator" where
  "call_later delay cb s =
     (next_handle s,
      s\<lparr>scheduled := scheduled s @ [(next_handle s, delay, cb)],
        next_handle := Suc (next_handle s)\<rparr>)"

definition cancel :: "nat \<Rightarrow> coordinator \<Rightarrow> coordinator" where
  "cancel h s = s\<lparr>scheduled := filter (\<lambda>e. fst e \<noteq> h) (scheduled s)\<rparr>"

definition create_task :: "task \<Rightarrow> coordinator \<Rightarrow> coordinator" where
  "create_task t s = s\<lparr>tasks := tasks s @ [t]\<rparr>"

definition sleep :: "nat \<Rightarrow> coordinator \<Rightarrow> coordinator" where
  "sleep ms s = s\<lparr>trace := trace s @ [Sleep ms]\<rparr>"

definition async_set_updated_data :: "bool \<Rightarrow> int option \<Rightarrow> coordinator \<Rightarrow> coordinator" where
  "async_set_updated_data on remaining s = s\<lparr>trace := trace s @ [Updated on remaining]\<rparr>"

text \<open>The frames written so far and the number of notifications to the observers.\<close>

fun frames :: "event list \<Rightarrow> bytes list" where
  "frames [] = []"
| "frames (Write b # es) = b # frames es"
| "frames (e # es) = frames es"

fun updates :: "event list \<Rightarrow> (bool \<times> int option) list" where
  "updates [] = []"
| "updates (Updated on r # es) = (on, r) # updates es"
| "updates (e # es) = updates es"

text \<open>Sequencing of coroutine steps: an exception ends the sequence with the state so far.\<close>

definition then_do :: "(coordinator \<Rightarrow> outcome) \<Rightarrow> (coordinator \<Rightarrow> outcome) \<Rightarrow> coordinator \<Rightarrow> outcome" where
  "then_do f g s = (case f s of (None, s') \<Rightarrow> g s' | (Some e, s') \<Rightarrow> (Some e, s'))"

definition returns :: "(coordinator \<Rightarrow> coordinator) \<Rightarrow> coordinator \<Rightarrow> outcome" where
  "returns f s = (None, f s)"

subsection \<open>Simple methods\<close>

definition set_timer_duration :: "int \<Rightarrow> coordinator \<Rightarrow> coordinator" where
  "set_timer_duration duration s = s\<lparr>timer_duration := duration\<rparr>"

text \<open>
  \<open>_disconnected\<close>, the callback that \<open>async_connect\<close> registers with the transport and
  that the transport calls when the session is gone: it logs the disconnect as expected
  or not, lowers the flag and drops the client.
\<close>

definition disconnected :: "coordinator \<Rightarrow> coordinator" where
  "disconnected s =
     (if expected_disconnect s
      then s\<lparr>trace := trace s @ [LogDisconnect True], expected_disconnect := False\<rparr>
      else s\<lparr>trace := trace s @ [LogDisconnect False]\<rparr>)
       \<lparr>client := None\<rparr>"

text \<open>
  \<open>client.disconnect()\<close> on a connected client: the transport closes the session, and
  with that it calls the registered callback \<open>_disconnected\<close>.
\<close>

definition client_disconnect :: "coordinator \<Rightarrow> coordinator" where
  "client_disconnect s = disconnected s"

definition async_disconnect :: "coordinator \<Rightarrow> outcome" where
  "async_disconnect s =
     (if countdown_timer s \<noteq> None then (None, s)
      else
        let s1 = s\<lparr>expected_disconnect := True\<rparr>;
            s2 = (case disconnect_timer s1 of
                    Some h \<Rightarrow> (cancel h s1)\<lparr>disconnect_timer := None\<rparr>
                  | None \<Rightarrow> s1);
            s3 = (case auto_off_timer s2 of Some h \<Rightarrow> cancel h s2 | None \<Rightarrow> s2);
            s4 = (if client s3 = Some True then client_disconnect s3 else s3)
        in (None, s4))"

definition start_countdown :: "coordinator \<Rightarrow> coordinator" where
  "start_countdown s =
     (let s1 = (case countdown_timer s of Some h \<Rightarrow> cancel h s | None \<Rightarrow> s);
          s2 = s1\<lparr>countdown_start_time := Some (clock s1)\<rparr>;
          (h, s3) = call_later COUNTDOWN_INTERVAL UpdateCountdown s2
      in s3\<lparr>countdown_timer := Some h\<rparr>)"

definition stop_countdown :: "coordinator \<Rightarrow> coordinator" where
  "stop_countdown s =
     (case countdown_timer s of
        Some h \<Rightarrow> (cancel h s)\<lparr>countdown_timer := None, countdown_start_time := None\<rparr>
      | None \<Rightarrow> s)"

subsection \<open>The notification handler\<close>

text \<open>
  \<open>data[i]\<close> on a \<open>bytearray\<close>: an integer in \<open>0..255\<close>, or \<open>IndexError\<close>; the rest of
  the handler is the continuation.
\<close>

definition getitem :: "bytes \<Rightarrow> nat \<Rightarrow> (int \<Rightarrow> coordinator \<Rightarrow> outcome) \<Rightarrow> coordinator \<Rightarrow> outcome" where
  "getitem data i k s =
     (if i < length data then k (uint (data ! i)) s else (Some IndexError, s))"

definition status_update :: "int \<Rightarrow> int \<Rightarrow> int \<Rightarrow> coordinator \<Rightarrow> outcome" where
  "status_update status_byte timer_high timer_low s =
     (let timer_seconds = push_bit 8 timer_high OR timer_low;
          new_state = (status_byte = 0x01);
          state_changed = (new_state \<noteq> is_on s);
          timer_changed = (timer_seconds \<noteq> timer_remaining s)
      in if state_changed \<or> timer_changed then
           let s1 = s\<lparr>is_on := new_state, timer_remaining := timer_seconds\<rparr>;
               s2 = async_set_updated_data (is_on s1) (Some (timer_remaining s1)) s1
           in if timer_seconds > 0 \<and> countdown_timer s2 = None then (None, start_countdown s2)
              else if timer_seconds = 0 \<and> countdown_timer s2 \<noteq> None then (None, stop_countdown s2)
              else (None, s2)
         else (None, s))"

definition power_ack :: "int \<Rightarrow> coordinator \<Rightarrow> outcome" where
  "power_ack status_byte s =
     (let new_state = (status_byte = 0x01)
      in if new_state \<noteq> is_on s then
           let s1 = s\<lparr>is_on := new_state\<rparr>
           in (None, async_set_updated_data (is_on s1) None s1)
         else (None, s))"

definition notification_handler :: "bytes \<Rightarrow> coordinator \<Rightarrow> outcome" where
  "notification_handler data s =
     (if length data < 3 then (None, s)
      else getitem data 0 (\<lambda>start s.
        if start \<noteq> RESPONSE_START_BYTE then (None, s)
        else getitem data 2 (\<lambda>cmd_type s.
          if cmd_type = STATUS_CMD_TYPE then
            (if length data > 9 then
               getitem data 5 (\<lambda>status_byte.
               getitem data 8 (\<lambda>timer_high.
               getitem data 9 (\<lambda>timer_low.
                 status_update status_byte timer_high timer_low))) s
             else (None, s))
          else if cmd_type = POWER_CMD_TYPE then
            (if length data > 5 then getitem data 5 power_ack s else (None, s))
          else if cmd_type = TIMER_CMD_TYPE then (None, s)
          else (None, s)) s) s)"

subsection \<open>The countdown\<close>

definition update_countdown :: "coordinator \<Rightarrow> coordinator" where
  "update_countdown s =
     (if timer_remaining s > 0 then
        let s1 = s\<lparr>timer_remaining := timer_remaining s - 1\<rparr>;
            s2 = async_set_updated_data (is_on s1) (Some (timer_remaining s1)) s1
        in if timer_remaining s2 > 0 then
             let (h, s3) = call_later COUNTDOWN_INTERVAL UpdateCountdown s2
             in s3\<lparr>countdown_timer := Some h\<rparr>
           else create_task QueryAndDisconnectTask (s2\<lparr>countdown_timer := None\<rparr>)
      else s\<lparr>countdown_timer := None\<rparr>)"

subsection \<open>Connecting and sending\<close>

text \<open>
  \<open>self._client.write_gatt_char(...)\<close>: on \<open>None\<close> the attribute access raises; a client
  that is not connected refuses the write; otherwise the transport decides.
\<close>

definition write_gatt_char :: "transport \<Rightarrow> bytes \<Rightarrow> coordinator \<Rightarrow> outcome" where
  "write_gatt_char tr command s =
     (case client s of
        None \<Rightarrow> (Some AttributeError, s)
      | Some connected \<Rightarrow>
          if \<not> connected then (Some BleakError, s)
          else
            let s1 = s\<lparr>write_calls := Suc (write_calls s)\<rparr>
            in (case write_result tr (write_calls s) of
                  Some e \<Rightarrow> (Some e, s1)
                | None \<Rightarrow> (None, s1\<lparr>trace := trace s1 @ [Write command]\<rparr>)))"

text \<open>\<open>_send_command\<close> from the cancelling of the idle-disconnect timer on.\<close>

definition send_command_write :: "transport \<Rightarrow> bytes \<Rightarrow> coordinator \<Rightarrow> outcome" where
  "send_command_write tr command s =
     (let s1 = (case disconnect_timer s of Some h \<Rightarrow> cancel h s | None \<Rightarrow> s)
      in case write_gatt_char tr command s1 of
           (Some e, s2) \<Rightarrow> (Some (if e = BleakError then UpdateFailed else e), s2)
         | (None, s2) \<Rightarrow>
             let s3 = sleep 500 s2
             in if countdown_timer s3 = None then
                  let (h, s4) = call_later DISCONNECT_DELAY CreateDisconnectTask s3
                  in (None, s4\<lparr>disconnect_timer := Some h\<rparr>)
                else (None, s3))"

lemma send_command_write_client:
  "client (snd (send_command_write tr command s)) = client s"
  by (simp add: send_command_write_def write_gatt_char_def cancel_def sleep_def call_later_def
      Let_def split: option.splits prod.splits if_splits)

text \<open>
  \<open>async_connect\<close>, its loop \<open>for attempt in range(5)\<close> around \<open>_query_status()\<close>
  (which is \<open>_send_command(STATUS_QUERY_CMD)\<close>), and \<open>_send_command\<close>, which connects
  first when there is no connected client. An exception of \<open>establish_connection\<close> or
  \<open>start_notify\<close> is logged and raised again; one of the status query is caught in the
  loop, which sleeps and goes on while \<open>attempt < 2\<close> and only goes on afterwards.
\<close>

function async_connect :: "transport \<Rightarrow> coordinator \<Rightarrow> outcome"
  and status_query_loop :: "transport \<Rightarrow> nat \<Rightarrow> coordinator \<Rightarrow> outcome"
  and send_command :: "transport \<Rightarrow> bytes \<Rightarrow> coordinator \<Rightarrow> outcome"
where
  "async_connect tr s =
     (if client s = Some True then (None, s)
      else
        case establish tr of
          Some e \<Rightarrow> (Some e, s)
        | None \<Rightarrow>
            let s1 = s\<lparr>client := Some True\<rparr>
            in (case start_notify tr of
                  Some e \<Rightarrow> (Some e, s1)
                | None \<Rightarrow> status_query_loop tr 0 (sleep 1000 s1)))"
| "status_query_loop tr attempt s =
     (if attempt < 5 then
        case send_command tr STATUS_QUERY_CMD s of
          (None, s') \<Rightarrow> (None, s')
        | (Some err, s') \<Rightarrow>
            status_query_loop tr (Suc attempt) (if attempt < 2 then sleep 1000 s' else s')
      else (None, s))"
| "send_command tr command s =
     (if client s \<noteq> Some True then
        case async_connect tr s of
          (Some e, s') \<Rightarrow> (Some e, s')
        | (None, s') \<Rightarrow> send_command_write tr command s'
      else send_command_write tr command s)"
  by pat_completeness auto

lemma send_command_dom_client:
  assumes "async_connect_status_query_loop_send_command_dom (Inr (Inr (tr, command, s)))"
    and "client s = Some True"
  shows "client (snd (send_command tr command s)) = Some True"
  using assms by (simp add: send_command.psimps send_command_write_client)

text \<open>
  The recursion ends: a call of \<open>async_connect\<close> without a connected client sets one
  before it enters the loop, the loop counts its attempts, and a write leaves the client
  as it is, so that no call inside the loop connects again.
\<close>

termination async_connect
proof (relation "measure (\<lambda>x. case x of
          Inl (tr, s) \<Rightarrow> (if client s = Some True then 0 else 20)
        | Inr (Inl (tr, attempt, s)) \<Rightarrow>
            (if client s = Some True then 0 else 20) + 2 + (5 - attempt)
        | Inr (Inr (tr, command, s)) \<Rightarrow> (if client s = Some True then 0 else 20) + 1)",
    goal_cases)
  case 1
  then show ?case by simp
next
  case (2 tr s s1)
  then show ?case by (simp add: sleep_def)
next
  case (3 tr attempt s)
  then show ?case by simp
next
  case (4 tr attempt s x y err)
  from 4 have y: "snd (send_command tr STATUS_QUERY_CMD s) = y"
    by (metis snd_conv)
  have "client s = Some True \<Longrightarrow> client y = Some True"
    using send_command_dom_client [of tr STATUS_QUERY_CMD s] 4 y by simp
  with 4 show ?case
    by (auto simp: sleep_def)
next
  case (5 tr command s)
  then show ?case by simp
qed

declare async_connect.simps [simp del]
declare status_query_loop.simps [simp del]
declare send_command.simps [simp del]

definition query_status :: "transport \<Rightarrow> coordinator \<Rightarrow> outcome" where
  "query_status tr s = send_command tr STATUS_QUERY_CMD s"

subsection \<open>Turning on and off\<close>

definition async_turn_on :: "transport \<Rightarrow> coordinator \<Rightarrow> outcome" where
  "async_turn_on tr s =
     then_do
       (if timer_duration s > 0 then
          (\<lambda>s. case create_timer_command (timer_duration s) of
                 Inl e \<Rightarrow> (Some e, s)
               | Inr timer_cmd \<Rightarrow>
                   then_do (send_command tr timer_cmd)
                     (then_do (returns (sleep 200)) (send_command tr TURN_ON_CMD)) s)
        else send_command tr TURN_ON_CMD)
       (then_do (returns (sleep 500))
       (then_do (returns (\<lambda>s. async_set_updated_data True None (s\<lparr>is_on := True\<rparr>)))
       (then_do (\<lambda>s. if timer_duration s > 0 then query_status tr s else (None, s))
         (returns (\<lambda>s. case auto_off_timer s of
                         Some h \<Rightarrow> (cancel h s)\<lparr>auto_off_timer := None\<rparr>
                       | None \<Rightarrow> s)))))
       s"

definition async_turn_off :: "transport \<Rightarrow> coordinator \<Rightarrow> outcome" where
  "async_turn_off tr s =
     then_do
       (returns (\<lambda>s. case auto_off_timer s of
                       Some h \<Rightarrow> (cancel h s)\<lparr>auto_off_timer := None\<rparr>
                     | None \<Rightarrow> s))
       (then_do (send_command tr TURN_OFF_CMD)
         (returns (\<lambda>s. async_set_updated_data False None (s\<lparr>is_on := False\<rparr>))))
       s"

definition auto_turn_off :: "transport \<Rightarrow> coordinator \<Rightarrow> outcome" where
  "auto_turn_off tr s = async_turn_off tr (s\<lparr>auto_off_timer := None\<rparr>)"

subsection \<open>What the event loop runs\<close>

text \<open>
  The coroutine \<open>query_and_disconnect\<close> that \<open>_update_countdown\<close> creates when the
  countdown reaches zero: every exception is caught and logged.
\<close>

definition query_and_disconnect :: "transport \<Rightarrow> coordinator \<Rightarrow> outcome" where
  "query_and_disconnect tr s =
     (case then_do (query_status tr) (then_do (returns (sleep 1000)) async_disconnect) s of
        (r, s') \<Rightarrow> (None, s'))"

text \<open>
  A pending handle comes due: the loop drops it and runs its callback. The callback of
  the idle-disconnect timer creates the task of \<open>async_disconnect\<close>; that of an auto-off
  timer would create the task of \<open>_auto_turn_off\<close>.
\<close>

definition fire_timer :: "nat \<Rightarrow> coordinator \<Rightarrow> coordinator" where
  "fire_timer h s =
     (case find (\<lambda>e. fst e = h) (scheduled s) of
        None \<Rightarrow> s
      | Some (h', delay, cb) \<Rightarrow>
          (case cb of
             UpdateCountdown \<Rightarrow> update_countdown (cancel h s)
           | CreateDisconnectTask \<Rightarrow> create_task DisconnectTask (cancel h s)
           | AutoTurnOff \<Rightarrow> create_task AutoTurnOffTask (cancel h s)))"

definition run_task :: "transport \<Rightarrow> coordinator \<Rightarrow> outcome" where
  "run_task tr s =
     (case tasks s of
        [] \<Rightarrow> (None, s)
      | t # ts \<Rightarrow>
          (case t of
             DisconnectTask \<Rightarrow> async_disconnect (s\<lparr>tasks := ts\<rparr>)
           | QueryAndDisconnectTask \<Rightarrow> query_and_disconnect tr (s\<lparr>tasks := ts\<rparr>)
           | AutoTurnOffTask \<Rightarrow> auto_turn_off tr (s\<lparr>tasks := ts\<rparr>)))"

text \<open>
  The operations on a coordinator: the calls of its users, the callbacks of the transport
  and the work of the event loop. A run is a sequence of them, each with the transport's
  behaviour during it.
\<close>

datatype operation =
    TurnOn | TurnOff | QueryStatus | Connect | Disconnect | SetTimerDuration int
  | Notification bytes | TransportDisconnected | TimerFires nat | Tick | TaskRuns

fun step :: "transport \<Rightarrow> operation \<Rightarrow> coordinator \<Rightarrow> outcome" where
  "step tr TurnOn s = async_turn_on tr s"
| "step tr TurnOff s = async_turn_off tr s"
| "step tr QueryStatus s = query_status tr s"
| "step tr Connect s = async_connect tr s"
| "step tr Disconnect s = async_disconnect s"
| "step tr (SetTimerDuration d) s = (None, set_timer_duration d s)"
| "step tr (Notification data) s = notification_handler data s"
| "step tr TransportDisconnected s = (None, disconnected s)"
| "step tr (TimerFires h) s = (None, fire_timer h s)"
| "step tr Tick s = (None, update_countdown s)"
| "step tr TaskRuns s = run_task tr s"

fun run :: "(transport \<times> operation) list \<Rightarrow> coordinator \<Rightarrow> coordinator" where
  "run [] s = s"
| "run ((tr, op) # ops) s = run ops (snd (step tr op s))"

subsection \<open>Views and example states\<close>

text \<open>
  The fields that neither connecting nor sending a command touches, and the countdown
  callbacks that are pending in the event loop.
\<close>

definition device_view ::
  "coordinator \<Rightarrow> bool \<times> int \<times> int \<times> nat option \<times> nat option \<times> nat option \<times> bool \<times> task list \<times> nat" where
  "device_view s =
     (is_on s, timer_remaining s, timer_duration s, countdown_timer s, countdown_start_time s,
      auto_off_timer s, expected_disconnect s, tasks s, clock s)"

definition pending_countdown :: "coordinator \<Rightarrow> (nat \<times> nat \<times> callback) list" where
  "pending_countdown s = filter (\<lambda>e. snd (snd e) = UpdateCountdown) (scheduled s)"

text \<open>
  The handles of the pending countdown callbacks were given out by the loop, and neither
  the idle-disconnect timer nor the auto-off timer is one of them.
\<close>

definition handles_ok :: "coordinator \<Rightarrow> bool" where
  "handles_ok s =
     list_all (\<lambda>e. fst e < next_handle s \<and> disconnect_timer s \<noteq> Some (fst e) \<and>
                   auto_off_timer s \<noteq> Some (fst e))
       (pending_countdown s)"

text \<open>
  From \<open>s\<close> to \<open>s'\<close> the loop has given out handles only from \<open>next_handle s\<close> on:
  what is pending in \<open>s'\<close> was pending in \<open>s\<close> or has a new handle.
\<close>

definition scheduled_grows :: "coordinator \<Rightarrow> coordinator \<Rightarrow> bool" where
  "scheduled_grows s s' \<longleftrightarrow>
     next_handle s \<le> next_handle s' \<and>
     list_all (\<lambda>e. e \<in> set (scheduled s) \<or> next_handle s \<le> fst e) (scheduled s')"

text \<open>A transport on which everything succeeds.\<close>

definition reliable :: transport where
  "reliable = \<lparr> establish = None, start_notify = None, write_result = (\<lambda>k. None) \<rparr>"

text \<open>
  What connecting adds to the trace when the transport is reliable: nothing if the client
  is connected, else the sleep and the status query of \<open>async_connect\<close>.
\<close>

definition connect_trace :: "coordinator \<Rightarrow> event list" where
  "connect_trace s =
     (if client s = Some True then [] else [Sleep 1000, Write STATUS_QUERY_CMD, Sleep 500])"

text \<open>
  A connected coordinator with its idle-disconnect timer pending, and one in the middle of
  a countdown with three seconds left.
\<close>

definition ex_connected :: coordinator where
  "ex_connected = init\<lparr>client := Some True, disconnect_timer := Some 0,
     scheduled := [(0, 120, CreateDisconnectTask)], next_handle := 1\<rparr>"

definition ex_counting :: coordinator where
  "ex_counting = init\<lparr>client := Some True, is_on := True, timer_remaining := 3,
     countdown_timer := Some 0, countdown_start_time := Some 0,
     scheduled := [(0, 1, UpdateCountdown)], next_handle := 1\<rparr>"

text \<open>The same in the middle of a countdown, with an auto-off timer pending as well.\<close>

definition ex_counting_auto_off :: coordinator where
  "ex_counting_auto_off = init\<lparr>client := Some True, is_on := True, timer_remaining := 3,
     countdown_timer := Some 0, countdown_start_time := Some 0, auto_off_timer := Some 1,
     scheduled := [(0, 1, UpdateCountdown), (1, 900, AutoTurnOff)], next_handle := 2\<rparr>"

text \<open>
  The coordinator after \<open>__init__\<close> and the status notification \<open>2A 00 10 00 00 01 00 0F
  00 03\<close> (on, three seconds left), which starts the countdown.
\<close>

definition ex_started :: coordinator where
  "ex_started =
     snd (notification_handler [0x2A, 0x00, 0x10, 0x00, 0x00, 0x01, 0x00, 0x0F, 0x00, 0x03] init)"

section \<open>Codec lemmas\<close>

lemma and_255_int: "(k::int) AND 255 = k mod 256"
proof -
  have "k AND mask 8 = k mod 256"
    by (simp add: take_bit_eq_mask [symmetric] take_bit_eq_mod)
  then show ?thesis by (simp add: mask_eq_exp_minus_1)
qed

lemma be16_int:
  assumes "0 \<le> l" "l < 256"
  shows "push_bit 8 h OR l = h * 256 + (l::int)"
proof -
  have "take_bit 8 l = l" using assms by (simp add: take_bit_int_eq_self)
  then have "l OR push_bit 8 h = l + push_bit 8 h"
    using concat_bit_eq [of 8 l h] by (simp add: concat_bit_def)
  then show ?thesis by (simp add: or.commute push_bit_eq_mult)
qed

lemma unat_word_of_int_byte:
  "0 \<le> k \<Longrightarrow> k < 256 \<Longrightarrow> unat (word_of_int k :: byte) = nat k"
  by (simp add: unat_eq_nat_uint uint_word_of_int)

lemma uint_word_of_int_byte:
  "0 \<le> k \<Longrightarrow> k < 256 \<Longrightarrow> uint (word_of_int k :: byte) = k"
  by (simp add: uint_word_of_int)

text \<open>The frame of any number of minutes, byte by byte: nothing is ever raised.\<close>

lemma create_timer_command_eq:
  "create_timer_command m =
     Inr [0x3A, 0x01, 0x31, 0x00, 0x02,
          word_of_int (m * 60 div 256 mod 256), word_of_int (m * 60 mod 256),
          word_of_int ((52 + m * 60 div 256 mod 256 + m * 60 mod 256) mod 256), 0x0A]"
proof -
  define s where "s = m * 60"
  have "create_timer_command m =
     Inr [0x3A, 0x01, 0x31, 0x00, 0x02,
          word_of_int (s div 256 mod 256), word_of_int (s mod 256),
          word_of_int ((52 + s div 256 mod 256 + s mod 256) mod 256), 0x0A]"
    unfolding create_timer_command_def s_def [symmetric]
    by (simp add: py_bytes_def Let_def and_255_int drop_bit_eq_div add.assoc)
  then show ?thesis unfolding s_def .
qed

lemma create_timer_command_in_range:
  assumes "1 \<le> m" "m \<le> 60"
  shows "create_timer_command m =
     Inr [0x3A, 0x01, 0x31, 0x00, 0x02,
          word_of_int (m * 60 div 256), word_of_int (m * 60 mod 256),
          word_of_int ((52 + m * 60 div 256 + m * 60 mod 256) mod 256), 0x0A]"
proof -
  define s where "s = m * 60"
  have s: "0 \<le> s div 256" "s div 256 < 256" using assms by (auto simp: s_def)
  then have "s div 256 mod 256 = s div 256" by simp
  then show ?thesis
    using create_timer_command_eq [of m] unfolding s_def [symmetric] by simp
qed

lemma byte_of_nat_sum:
  assumes "0 \<le> h" "0 \<le> l"
  shows "(of_nat ((52 + nat h + nat l) mod 256) :: byte) = word_of_int ((52 + h + l) mod 256)"
proof -
  have "int ((52 + nat h + nat l) mod 256) = (52 + h + l) mod 256"
    using assms by (simp add: zmod_int)
  then show ?thesis
    by (metis of_int_of_nat_eq)
qed

lemma spec_frame_timer:
  assumes "0 \<le> h" "h < 256" "0 \<le> l" "l < 256"
  shows "spec_frame 0x31 [word_of_int h, word_of_int l] =
     [0x3A, 0x01, 0x31, 0x00, 0x02, word_of_int h, word_of_int l,
      word_of_int ((52 + h + l) mod 256), 0x0A]"
  using assms byte_of_nat_sum [of h l]
  by (simp add: spec_frame_def spec_checksum_def unat_word_of_int_byte add.assoc)

lemma timer_frame_is_spec_frame:
  assumes "1 \<le> m" "m \<le> 60"
  shows "create_timer_command m =
     Inr (spec_frame 0x31 [word_of_int (m * 60 div 256), word_of_int (m * 60 mod 256)])"
proof -
  define s where "s = m * 60"
  have s: "0 \<le> s div 256" "s div 256 < 256" using assms by (auto simp: s_def)
  have "spec_frame 0x31 [word_of_int (s div 256), word_of_int (s mod 256)] =
     [0x3A, 0x01, 0x31, 0x00, 0x02, word_of_int (s div 256), word_of_int (s mod 256),
      word_of_int ((52 + s div 256 + s mod 256) mod 256), 0x0A]"
    using s by (intro spec_frame_timer) simp_all
  then show ?thesis
    using create_timer_command_in_range [OF assms] unfolding s_def [symmetric] by simp
qed

lemma const_frames:
  "TURN_ON_CMD = spec_frame 0x20 [0x01]"
  "TURN_OFF_CMD = spec_frame 0x20 [0x00]"
  "STATUS_QUERY_CMD = spec_frame 0x10 []"
  by (simp_all add: TURN_ON_CMD_def TURN_OFF_CMD_def STATUS_QUERY_CMD_def spec_frame_def
      spec_checksum_def)

lemma const_checksums:
  "frame_checksum TURN_ON_CMD = (1 + sum_opcode_len_payload TURN_ON_CMD) mod 256"
  "frame_checksum TURN_OFF_CMD = (1 + sum_opcode_len_payload TURN_OFF_CMD) mod 256"
  "frame_checksum STATUS_QUERY_CMD = (1 + sum_opcode_len_payload STATUS_QUERY_CMD) mod 256"
  "frame_checksum TURN_ON_CMD = sum_after_start TURN_ON_CMD mod 256"
  "frame_checksum TURN_OFF_CMD = sum_after_start TURN_OFF_CMD mod 256"
  "frame_checksum STATUS_QUERY_CMD = sum_after_start STATUS_QUERY_CMD mod 256"
  by (simp_all add: TURN_ON_CMD_def TURN_OFF_CMD_def STATUS_QUERY_CMD_def frame_checksum_def
      sum_opcode_len_payload_def sum_after_start_def)

lemma timer_checksum:
  assumes "1 \<le> m" "m \<le> 60"
  shows "\<exists>f. create_timer_command m = Inr f \<and>
           frame_checksum f = sum_after_start f mod 256 \<and>
           frame_checksum f = (1 + sum_opcode_len_payload f) mod 256"
proof -
  define s where "s = m * 60"
  define h where "h = s div 256"
  define l where "l = s mod 256"
  have hl: "0 \<le> h" "h < 256" "0 \<le> l" "l < 256"
    using assms by (auto simp: s_def h_def l_def)
  define f :: bytes where
    "f = [0x3A, 0x01, 0x31, 0x00, 0x02, word_of_int h, word_of_int l,
          word_of_int ((52 + h + l) mod 256), 0x0A]"
  have eq: "int ((52 + nat h + nat l) mod 256) = (52 + h + l) mod 256"
    using hl by (simp add: zmod_int)
  have ck: "unat (word_of_int ((52 + h + l) mod 256) :: byte) = (52 + nat h + nat l) mod 256"
    by (simp add: eq [symmetric] unat_of_nat)
  have f: "create_timer_command m = Inr f"
    using create_timer_command_in_range [OF assms] by (simp add: f_def h_def l_def s_def)
  have 1: "frame_checksum f = (52 + nat h + nat l) mod 256"
    by (simp add: frame_checksum_def f_def ck)
  have 2: "sum_after_start f = 52 + nat h + nat l"
    using hl by (simp add: sum_after_start_def f_def unat_word_of_int_byte)
  have 3: "sum_opcode_len_payload f = 51 + nat h + nat l"
    using hl by (simp add: sum_opcode_len_payload_def f_def unat_word_of_int_byte)
  have "frame_checksum f = sum_after_start f mod 256" unfolding 1 2 ..
  moreover have "frame_checksum f = (1 + sum_opcode_len_payload f) mod 256"
    unfolding 1 3 by (rule arg_cong [where f = "\<lambda>n. n mod 256"]) arith
  ultimately show ?thesis using f by blast
qed

lemma timer_payload:
  assumes "1 \<le> m" "m \<le> 60"
  shows "\<exists>f. create_timer_command m = Inr f \<and> length f = 9 \<and> f ! 4 = 2 \<and>
           uint (f ! 5) = m * 60 div 256 \<and> uint (f ! 6) = m * 60 mod 256 \<and>
           push_bit 8 (uint (f ! 5)) OR uint (f ! 6) = m * 60"
proof -
  define s where "s = m * 60"
  have s: "0 \<le> s div 256" "s div 256 < 256" using assms by (auto simp: s_def)
  have "push_bit 8 (s div 256) OR (s mod 256) = s div 256 * 256 + s mod 256"
    by (rule be16_int) simp_all
  then have "push_bit 8 (s div 256) OR (s mod 256) = s" by simp
  then show ?thesis
    using create_timer_command_in_range [OF assms] s unfolding s_def [symmetric]
    by (simp add: uint_word_of_int_byte)
qed

section \<open>The codec claims\<close>

text \<open>
  Claim C1. Every command frame is the byte sequence \<open>3A 01 opcode 00 len payload
  checksum 0A\<close> of the specification, the checksum being the sum modulo 256 of the bytes
  from index 1 through the end of the payload: power on and off with opcode \<open>0x20\<close> and
  the one-byte payload \<open>01\<close> or \<open>00\<close>, the status query with opcode \<open>0x10\<close> and no
  payload, and the set-timer frame of every number of minutes from 1 to 60 with opcode
  \<open>0x31\<close> and the two bytes of the seconds as payload.
\<close>

theorem command_frames_follow_spec_frame:
  "TURN_ON_CMD = spec_frame 0x20 [0x01] \<and>
   TURN_OFF_CMD = spec_frame 0x20 [0x00] \<and>
   STATUS_QUERY_CMD = spec_frame 0x10 [] \<and>
   (\<forall>minutes. 1 \<le> minutes \<and> minutes \<le> 60 \<longrightarrow>
      create_timer_command minutes =
        Inr (spec_frame 0x31 [word_of_int (minutes * 60 div 256),
                              word_of_int (minutes * 60 mod 256)]))"
  using const_frames timer_frame_is_spec_frame by blast

theorem command_frames_follow_spec_frame_witness:
  "TURN_ON_CMD = [0x3A, 0x01, 0x20, 0x00, 0x01, 0x01, 0x23, 0x0A] \<and>
   (1::int) \<le> 20 \<and> (20::int) \<le> 60 \<and>
   create_timer_command 20 = Inr [0x3A, 0x01, 0x31, 0x00, 0x02, 0x04, 0xB0, 0xE8, 0x0A]"
  using command_frames_follow_spec_frame
    [THEN conjunct2, THEN conjunct2, THEN conjunct2, THEN spec, of 20]
  by (simp add: spec_frame_def spec_checksum_def TURN_ON_CMD_def)

text \<open>
  Claim C2 says that the checksum is the sum of the opcode, the length and the payload
  only. It is not: the sum starts at the byte \<open>0x01\<close> at index 1, as the docstring of
  \<open>create_timer_command\<close> says (all bytes but the start and the end byte). For one
  minute the frame is \<open>3A 01 31 00 02 00 3C 70 0A\<close>: the checksum is \<open>0x70 = 112\<close>, the sum
  over opcode, length and payload is \<open>111\<close>.
\<close>

theorem checksum_over_opcode_len_payload_counterexample:
  "create_timer_command 1 = Inr [0x3A, 0x01, 0x31, 0x00, 0x02, 0x00, 0x3C, 0x70, 0x0A] \<and>
   frame_checksum [0x3A, 0x01, 0x31, 0x00, 0x02, 0x00, 0x3C, 0x70, 0x0A] = 112 \<and>
   sum_opcode_len_payload [0x3A, 0x01, 0x31, 0x00, 0x02, 0x00, 0x3C, 0x70, 0x0A] mod 256 = 111"
  by (simp add: create_timer_command_eq frame_checksum_def sum_opcode_len_payload_def)

text \<open>
  Claim C2, amended. For every number of minutes from 1 to 60 the checksum byte of the
  set-timer frame is the sum modulo 256 of all bytes after the start byte up to the end
  of the payload, which is one more than the sum over opcode, length and payload; the
  same holds for the power and the status query frames.
\<close>

theorem checksum_includes_address_byte:
  "(\<forall>minutes. 1 \<le> minutes \<and> minutes \<le> 60 \<longrightarrow>
      (\<exists>f. create_timer_command minutes = Inr f \<and>
           frame_checksum f = sum_after_start f mod 256 \<and>
           frame_checksum f = (1 + sum_opcode_len_payload f) mod 256)) \<and>
   frame_checksum TURN_ON_CMD = sum_after_start TURN_ON_CMD mod 256 \<and>
   frame_checksum TURN_ON_CMD = (1 + sum_opcode_len_payload TURN_ON_CMD) mod 256 \<and>
   frame_checksum TURN_OFF_CMD = sum_after_start TURN_OFF_CMD mod 256 \<and>
   frame_checksum TURN_OFF_CMD = (1 + sum_opcode_len_payload TURN_OFF_CMD) mod 256 \<and>
   frame_checksum STATUS_QUERY_CMD = sum_after_start STATUS_QUERY_CMD mod 256 \<and>
   frame_checksum STATUS_QUERY_CMD = (1 + sum_opcode_len_payload STATUS_QUERY_CMD) mod 256"
  using timer_checksum const_checksums by blast

theorem checksum_includes_address_byte_witness:
  "(1::int) \<le> 20 \<and> (20::int) \<le> 60 \<and>
   create_timer_command 20 = Inr [0x3A, 0x01, 0x31, 0x00, 0x02, 0x04, 0xB0, 0xE8, 0x0A] \<and>
   frame_checksum [0x3A, 0x01, 0x31, 0x00, 0x02, 0x04, 0xB0, 0xE8, 0x0A]
     = (1 + sum_opcode_len_payload [0x3A, 0x01, 0x31, 0x00, 0x02, 0x04, 0xB0, 0xE8, 0x0A]) mod 256"
  using checksum_includes_address_byte [THEN conjunct1, THEN spec, of 20]
  by (auto simp: create_timer_command_eq)

text \<open>
  Claim C4 says that \<open>create_timer_command\<close> fails for minutes outside 1 to 60. The
  function checks nothing: for 0 and for 61 it returns a frame.
\<close>

theorem timer_command_out_of_range_counterexample:
  "create_timer_command 0 = Inr [0x3A, 0x01, 0x31, 0x00, 0x02, 0x00, 0x00, 0x34, 0x0A] \<and>
   create_timer_command 61 = Inr [0x3A, 0x01, 0x31, 0x00, 0x02, 0x0E, 0x4C, 0x8E, 0x0A]"
  by (simp add: create_timer_command_eq)

text \<open>
  Claim C4, amended. \<open>create_timer_command\<close> returns a frame of nine bytes for every
  integer: the payload is the low 16 bits of \<open>minutes * 60\<close>, the high byte first, and
  the checksum is computed as for the minutes in range. Nothing is raised.
\<close>

theorem timer_command_total:
  "create_timer_command minutes =
     Inr [0x3A, 0x01, 0x31, 0x00, 0x02,
          word_of_int (minutes * 60 div 256 mod 256), word_of_int (minutes * 60 mod 256),
          word_of_int ((52 + minutes * 60 div 256 mod 256 + minutes * 60 mod 256) mod 256),
          0x0A]"
  by (rule create_timer_command_eq)

section \<open>The notification handler\<close>

lemma uint_byte_eq_numeral [simp]:
  "(uint (w::byte) = 0x2A) = (w = 0x2A)"
  "(uint (w::byte) = 0x10) = (w = 0x10)"
  "(uint (w::byte) = 0x20) = (w = 0x20)"
  "(uint (w::byte) = 0x31) = (w = 0x31)"
  "(uint (w::byte) = 1) = (w = 1)"
  using word_uint_eq_iff [of w "0x2A"] word_uint_eq_iff [of w "0x10"]
    word_uint_eq_iff [of w "0x20"] word_uint_eq_iff [of w "0x31"] word_uint_eq_iff [of w 1]
  by simp_all

lemma handler_short: "length data < 3 \<Longrightarrow> notification_handler data s = (None, s)"
  by (simp add: notification_handler_def)

lemma handler_bad_start:
  "data ! 0 \<noteq> 0x2A \<Longrightarrow> notification_handler data s = (None, s)"
  by (simp add: notification_handler_def getitem_def RESPONSE_START_BYTE_def)

lemma handler_status:
  assumes "length data > 9" "data ! 0 = 0x2A" "data ! 2 = 0x10"
  shows "notification_handler data s =
     status_update (uint (data ! 5)) (uint (data ! 8)) (uint (data ! 9)) s"
proof -
  have "0 < length data" "2 < length data" "5 < length data" "8 < length data"
    "\<not> length data < 3"
    using assms(1) by auto
  then show ?thesis
    using assms
    by (simp add: notification_handler_def getitem_def RESPONSE_START_BYTE_def
        STATUS_CMD_TYPE_def)
qed

lemma handler_status_short:
  "length data < 10 \<Longrightarrow> data ! 2 = 0x10 \<Longrightarrow> notification_handler data s = (None, s)"
  by (simp add: notification_handler_def getitem_def RESPONSE_START_BYTE_def STATUS_CMD_TYPE_def)

lemma handler_power:
  assumes "length data > 5" "data ! 0 = 0x2A" "data ! 2 = 0x20"
  shows "notification_handler data s = power_ack (uint (data ! 5)) s"
proof -
  have "0 < length data" "2 < length data" "\<not> length data < 3"
    using assms(1) by auto
  then show ?thesis
    using assms
    by (simp add: notification_handler_def getitem_def RESPONSE_START_BYTE_def
        STATUS_CMD_TYPE_def POWER_CMD_TYPE_def)
qed

lemma handler_power_short:
  "length data < 6 \<Longrightarrow> data ! 2 = 0x20 \<Longrightarrow> notification_handler data s = (None, s)"
  by (simp add: notification_handler_def getitem_def RESPONSE_START_BYTE_def STATUS_CMD_TYPE_def
      POWER_CMD_TYPE_def)

lemma handler_other:
  "data ! 2 \<noteq> 0x10 \<Longrightarrow> data ! 2 \<noteq> 0x20 \<Longrightarrow> notification_handler data s = (None, s)"
  by (simp add: notification_handler_def getitem_def RESPONSE_START_BYTE_def STATUS_CMD_TYPE_def
      POWER_CMD_TYPE_def TIMER_CMD_TYPE_def)

lemma status_update_returns: "fst (status_update b h l s) = None"
  by (simp add: status_update_def Let_def)

lemma power_ack_returns: "fst (power_ack b s) = None"
  by (simp add: power_ack_def Let_def)

lemma handler_returns: "fst (notification_handler data s) = None"
proof (cases "length data < 3 \<or> data ! 0 \<noteq> 0x2A")
  case True
  then show ?thesis using handler_short handler_bad_start by auto
next
  case False
  then have d: "\<not> length data < 3" "data ! 0 = 0x2A" by auto
  consider "data ! 2 = 0x10" "length data > 9" | "data ! 2 = 0x10" "length data < 10"
    | "data ! 2 = 0x20" "length data > 5" | "data ! 2 = 0x20" "length data < 6"
    | "data ! 2 \<noteq> 0x10" "data ! 2 \<noteq> 0x20"
    by fastforce
  then show ?thesis
  proof cases
    case 1 then show ?thesis using d by (simp add: handler_status status_update_returns)
  next
    case 2 then show ?thesis by (simp add: handler_status_short)
  next
    case 3 then show ?thesis using d by (simp add: handler_power power_ack_returns)
  next
    case 4 then show ?thesis by (simp add: handler_power_short)
  next
    case 5 then show ?thesis by (simp add: handler_other)
  qed
qed

lemma start_countdown_fields:
  "is_on (start_countdown s) = is_on s" "timer_remaining (start_countdown s) = timer_remaining s"
  "trace (start_countdown s) = trace s" "countdown_timer (start_countdown s) \<noteq> None"
  "timer_duration (start_countdown s) = timer_duration s"
  by (simp_all add: start_countdown_def call_later_def cancel_def Let_def split: option.splits)

lemma stop_countdown_fields:
  "is_on (stop_countdown s) = is_on s" "timer_remaining (stop_countdown s) = timer_remaining s"
  "trace (stop_countdown s) = trace s" "countdown_timer (stop_countdown s) = None"
  "timer_duration (stop_countdown s) = timer_duration s"
  by (simp_all add: stop_countdown_def cancel_def split: option.splits)

lemma status_update_unchanged:
  "(b = 1) = is_on s \<Longrightarrow> push_bit 8 h OR l = timer_remaining s \<Longrightarrow>
   status_update b h l s = (None, s)"
  by (simp add: status_update_def Let_def)

lemma status_update_changed:
  assumes "(b = 1) \<noteq> is_on s \<or> push_bit 8 h OR l \<noteq> timer_remaining s"
  shows "is_on (snd (status_update b h l s)) = (b = 1)"
    "timer_remaining (snd (status_update b h l s)) = push_bit 8 h OR l"
    "trace (snd (status_update b h l s)) = trace s @ [Updated (b = 1) (Some (push_bit 8 h OR l))]"
  using assms
  by (auto simp: status_update_def Let_def async_set_updated_data_def start_countdown_fields
      stop_countdown_fields)

lemma status_update_result:
  "is_on (snd (status_update b h l s)) = (b = 1)"
  "timer_remaining (snd (status_update b h l s)) = push_bit 8 h OR l"
  by (auto simp: status_update_def Let_def async_set_updated_data_def start_countdown_fields
      stop_countdown_fields)

lemma status_update_idem:
  "status_update b h l (snd (status_update b h l s)) = (None, snd (status_update b h l s))"
  by (rule status_update_unchanged) (simp_all add: status_update_result)

lemma status_remaining_nonneg: "0 \<le> push_bit 8 (uint (h::byte)) OR uint (l::byte)"
  by simp

lemma handler_roundtrip:
  "timer_remaining (snd (notification_handler [0x2A, a, 0x10, b, c, st, d, e, hi, lo] s))
     = push_bit 8 (uint hi) OR uint lo"
  by (simp add: handler_status status_update_result)

text \<open>
  Claim C3. For every number of minutes from 1 to 60 the payload of the set-timer frame
  is two bytes, the seconds \<open>minutes * 60\<close> with the high byte first, and reading them
  back as \<open>(high << 8) | low\<close>, as the notification handler reads a timer, gives
  \<open>minutes * 60\<close> again.
\<close>

theorem timer_payload_big_endian_roundtrip:
  "\<forall>minutes. 1 \<le> minutes \<and> minutes \<le> 60 \<longrightarrow>
     (\<exists>f. create_timer_command minutes = Inr f \<and> length f = 9 \<and> f ! 4 = 2 \<and>
          uint (f ! 5) = minutes * 60 div 256 \<and> uint (f ! 6) = minutes * 60 mod 256 \<and>
          push_bit 8 (uint (f ! 5)) OR uint (f ! 6) = minutes * 60 \<and>
          (\<forall>a b c d e st s.
             timer_remaining
               (snd (notification_handler [0x2A, a, 0x10, b, c, st, d, e, f ! 5, f ! 6] s))
             = minutes * 60))"
proof (intro allI impI)
  fix minutes :: int
  assume "1 \<le> minutes \<and> minutes \<le> 60"
  then obtain f where f: "create_timer_command minutes = Inr f" "length f = 9" "f ! 4 = 2"
    "uint (f ! 5) = minutes * 60 div 256" "uint (f ! 6) = minutes * 60 mod 256"
    "push_bit 8 (uint (f ! 5)) OR uint (f ! 6) = minutes * 60"
    using timer_payload [of minutes] by blast
  from f(6) have "\<forall>a b c d e st s.
             timer_remaining
               (snd (notification_handler [0x2A, a, 0x10, b, c, st, d, e, f ! 5, f ! 6] s))
             = minutes * 60"
    by (simp only: handler_roundtrip) simp
  with f show "\<exists>f. create_timer_command minutes = Inr f \<and> length f = 9 \<and> f ! 4 = 2 \<and>
          uint (f ! 5) = minutes * 60 div 256 \<and> uint (f ! 6) = minutes * 60 mod 256 \<and>
          push_bit 8 (uint (f ! 5)) OR uint (f ! 6) = minutes * 60 \<and>
          (\<forall>a b c d e st s.
             timer_remaining
               (snd (notification_handler [0x2A, a, 0x10, b, c, st, d, e, f ! 5, f ! 6] s))
             = minutes * 60)"
    by blast
qed

theorem timer_payload_big_endian_roundtrip_witness:
  "(1::int) \<le> 20 \<and> (20::int) \<le> 60 \<and>
   create_timer_command 20 = Inr [0x3A, 0x01, 0x31, 0x00, 0x02, 0x04, 0xB0, 0xE8, 0x0A] \<and>
   push_bit 8 (uint (0x04 :: byte)) OR uint (0xB0 :: byte) = 20 * 60 \<and>
   timer_remaining
     (snd (notification_handler [0x2A, 0x00, 0x10, 0x00, 0x00, 0x01, 0x04, 0xB0, 0x04, 0xB0] init))
     = 1200"
  using timer_payload_big_endian_roundtrip [THEN spec, of 20]
  by (auto simp: create_timer_command_eq)

text \<open>
  Claim C5. The notification handler never raises, and a notification that is shorter
  than three bytes, or does not start with \<open>0x2A\<close>, or is a status frame shorter than ten
  bytes, or a power frame shorter than six bytes, or has any other opcode than status and
  power, leaves the coordinator exactly as it was, with nothing sent to the observers.
\<close>

theorem malformed_notification_ignored:
  "fst (notification_handler data s) = None \<and>
   (length data < 3 \<or> data ! 0 \<noteq> 0x2A \<or> (data ! 2 = 0x10 \<and> length data < 10) \<or>
    (data ! 2 = 0x20 \<and> length data < 6) \<or> (data ! 2 \<noteq> 0x10 \<and> data ! 2 \<noteq> 0x20)
    \<longrightarrow> notification_handler data s = (None, s))"
  using handler_returns handler_short handler_bad_start handler_status_short
    handler_power_short handler_other
  by blast

theorem malformed_notification_ignored_witness:
  "notification_handler [] init = (None, init) \<and>
   notification_handler [0x2A, 0x00] init = (None, init) \<and>
   notification_handler [0x3A, 0x00, 0x10, 0x00, 0x00, 0x01, 0x00, 0x0F, 0x00, 0x2D] init
     = (None, init) \<and>
   notification_handler [0x2A, 0x00, 0x10, 0x00, 0x00, 0x01, 0x00, 0x0F, 0x00] init
     = (None, init) \<and>
   notification_handler [0x2A, 0x00, 0x20, 0x00, 0x01] init = (None, init) \<and>
   notification_handler [0x2A, 0x00, 0x31, 0x00, 0x00, 0x01] init = (None, init) \<and>
   notification_handler [0x2A, 0x00, 0x77, 0x00, 0x00, 0x01, 0x00, 0x0F, 0x00, 0x2D] init
     = (None, init)"
  using malformed_notification_ignored [of "[]" init]
    malformed_notification_ignored [of "[0x2A, 0x00]" init]
    malformed_notification_ignored
      [of "[0x3A, 0x00, 0x10, 0x00, 0x00, 0x01, 0x00, 0x0F, 0x00, 0x2D]" init]
    malformed_notification_ignored
      [of "[0x2A, 0x00, 0x10, 0x00, 0x00, 0x01, 0x00, 0x0F, 0x00]" init]
    malformed_notification_ignored [of "[0x2A, 0x00, 0x20, 0x00, 0x01]" init]
    malformed_notification_ignored [of "[0x2A, 0x00, 0x31, 0x00, 0x00, 0x01]" init]
    malformed_notification_ignored
      [of "[0x2A, 0x00, 0x77, 0x00, 0x00, 0x01, 0x00, 0x0F, 0x00, 0x2D]" init]
  by simp

text \<open>
  Claim C7. A status notification whose power flag and remaining seconds are those the
  coordinator already holds changes nothing and notifies nobody; one that differs in
  either replaces both and notifies the observers exactly once. So the same status
  notification a second time is always without effect.
\<close>

theorem status_update_idempotent:
  "length data > 9 \<and> data ! 0 = 0x2A \<and> data ! 2 = 0x10 \<longrightarrow>
   (let new_on = (data ! 5 = 1);
        remaining = push_bit 8 (uint (data ! 8)) OR uint (data ! 9);
        r = notification_handler data s
    in fst r = None \<and>
       (new_on = is_on s \<and> remaining = timer_remaining s \<longrightarrow> r = (None, s)) \<and>
       (new_on \<noteq> is_on s \<or> remaining \<noteq> timer_remaining s \<longrightarrow>
          is_on (snd r) = new_on \<and> timer_remaining (snd r) = remaining \<and>
          trace (snd r) = trace s @ [Updated new_on (Some remaining)]) \<and>
       notification_handler data (snd r) = (None, snd r))"
proof (intro impI, elim conjE)
  assume d: "length data > 9" "data ! 0 = 0x2A" "data ! 2 = 0x10"
  define b where "b = uint (data ! 5)"
  define h where "h = uint (data ! 8)"
  define l where "l = uint (data ! 9)"
  have b: "(data ! 5 = 1) = (b = 1)" by (simp add: b_def)
  have r: "notification_handler data s' = status_update b h l s'" for s'
    using d by (simp add: handler_status b_def h_def l_def)
  show "let new_on = (data ! 5 = 1);
        remaining = push_bit 8 (uint (data ! 8)) OR uint (data ! 9);
        r = notification_handler data s
    in fst r = None \<and>
       (new_on = is_on s \<and> remaining = timer_remaining s \<longrightarrow> r = (None, s)) \<and>
       (new_on \<noteq> is_on s \<or> remaining \<noteq> timer_remaining s \<longrightarrow>
          is_on (snd r) = new_on \<and> timer_remaining (snd r) = remaining \<and>
          trace (snd r) = trace s @ [Updated new_on (Some remaining)]) \<and>
       notification_handler data (snd r) = (None, snd r)"
    unfolding Let_def r b h_def [symmetric] l_def [symmetric]
    using status_update_returns [of b h l s] status_update_unchanged [of b s h l]
      status_update_changed [of b s h l] status_update_idem [of b h l s]
    by blast
qed

theorem status_update_idempotent_witness:
  "trace (snd (notification_handler
       [0x2A, 0x00, 0x10, 0x00, 0x00, 0x01, 0x00, 0x0F, 0x00, 0x00] init))
     = [Updated True (Some 0)] \<and>
   notification_handler [0x2A, 0x00, 0x10, 0x00, 0x00, 0x01, 0x00, 0x0F, 0x00, 0x00]
     (snd (notification_handler
       [0x2A, 0x00, 0x10, 0x00, 0x00, 0x01, 0x00, 0x0F, 0x00, 0x00] init))
     = (None, snd (notification_handler
       [0x2A, 0x00, 0x10, 0x00, 0x00, 0x01, 0x00, 0x0F, 0x00, 0x00] init))"
  using status_update_idempotent
    [of "[0x2A, 0x00, 0x10, 0x00, 0x00, 0x01, 0x00, 0x0F, 0x00, 0x00]" init]
  by (simp add: Let_def init_def)

section \<open>Disconnecting\<close>

lemma cancel_idem: "cancel h (cancel h s) = cancel h s"
  by (simp add: cancel_def)

lemma cancel_removes: "h \<notin> fst ` set (scheduled (cancel h s))"
  by (auto simp: cancel_def)

lemma async_disconnect_skip:
  "countdown_timer s \<noteq> None \<Longrightarrow> async_disconnect s = (None, s)"
  by (simp add: async_disconnect_def)


lemma async_disconnect_effect:
  assumes "countdown_timer s = None"
  shows "expected_disconnect (snd (async_disconnect s)) = (client s \<noteq> Some True)"
    "disconnect_timer (snd (async_disconnect s)) = None"
    "client (snd (async_disconnect s)) = (if client s = Some True then None else client s)"
    "disconnect_timer s = Some h \<Longrightarrow> h \<notin> fst ` set (scheduled (snd (async_disconnect s)))"
    "is_on (snd (async_disconnect s)) = is_on s"
    "timer_remaining (snd (async_disconnect s)) = timer_remaining s"
    "timer_duration (snd (async_disconnect s)) = timer_duration s"
    "countdown_timer (snd (async_disconnect s)) = None"
    "trace (snd (async_disconnect s)) =
       trace s @ (if client s = Some True then [LogDisconnect True] else [])"
  using assms
  by (auto simp: async_disconnect_def Let_def cancel_def client_disconnect_def
      disconnected_def split: option.splits)









section \<open>The countdown\<close>

lemma update_countdown_remaining:
  "timer_remaining (update_countdown s) =
     (if timer_remaining s > 0 then timer_remaining s - 1 else timer_remaining s)"
  by (simp add: update_countdown_def Let_def async_set_updated_data_def call_later_def
      create_task_def split: prod.splits)

lemma update_countdown_timer:
  "countdown_timer (update_countdown s) \<noteq> None \<longleftrightarrow> timer_remaining s > 1"
  by (auto simp: update_countdown_def Let_def async_set_updated_data_def call_later_def
      create_task_def split: prod.splits)

section \<open>Connecting and sending\<close>

lemma then_do_None: "f s = (None, s') \<Longrightarrow> then_do f g s = g s'"
  by (simp add: then_do_def)

lemma then_do_Some: "f s = (Some e, s') \<Longrightarrow> then_do f g s = (Some e, s')"
  by (simp add: then_do_def)

lemma then_do_returns: "then_do (returns f) g s = g (f s)"
  by (simp add: then_do_def returns_def)

lemma outcome_eq: "r = (fst r, snd r)"
  by simp

lemma send_command_connected:
  "client s = Some True \<Longrightarrow> send_command tr command s = send_command_write tr command s"
  by (simp add: send_command.simps)

lemma cancel_fields:
  "device_view (cancel h s) = device_view s" "client (cancel h s) = client s"
  "trace (cancel h s) = trace s" "write_calls (cancel h s) = write_calls s"
  "next_handle (cancel h s) = next_handle s" "disconnect_timer (cancel h s) = disconnect_timer s"
  by (simp_all add: cancel_def device_view_def)

lemma sleep_fields:
  "device_view (sleep ms s) = device_view s" "client (sleep ms s) = client s"
  "trace (sleep ms s) = trace s @ [Sleep ms]" "write_calls (sleep ms s) = write_calls s"
  "scheduled (sleep ms s) = scheduled s" "next_handle (sleep ms s) = next_handle s"
  "disconnect_timer (sleep ms s) = disconnect_timer s"
  by (simp_all add: sleep_def device_view_def)

lemma send_command_write_view:
  "device_view (snd (send_command_write tr command s)) = device_view s"
  by (simp add: send_command_write_def write_gatt_char_def cancel_def sleep_def call_later_def
      device_view_def Let_def split: option.splits prod.splits if_splits)

lemma send_command_write_ok:
  assumes "client s = Some True" "write_result tr (write_calls s) = None"
  shows "fst (send_command_write tr command s) = None"
    "trace (snd (send_command_write tr command s)) = trace s @ [Write command, Sleep 500]"
    "write_calls (snd (send_command_write tr command s)) = Suc (write_calls s)"
  using assms
  by (cases "disconnect_timer s"; cases "countdown_timer s";
      simp add: send_command_write_def write_gatt_char_def cancel_def sleep_def
        call_later_def Let_def)+

lemma connect_view:
  "device_view (snd (async_connect tr s)) = device_view s"
  "device_view (snd (status_query_loop tr attempt s)) = device_view s"
  "device_view (snd (send_command tr command s)) = device_view s"
proof (induction tr s and tr attempt s and tr command s
    rule: async_connect_status_query_loop_send_command.induct)
  case (1 tr s)
  have "device_view (sleep 1000 (s\<lparr>client := Some True\<rparr>)) = device_view s"
    by (simp add: sleep_def device_view_def)
  with 1 show ?case
    by (subst async_connect.simps) (auto simp: Let_def device_view_def split: option.splits)
next
  case (2 tr attempt s)
  show ?case
  proof (cases "attempt < 5")
    case False
    then show ?thesis by (subst status_query_loop.simps) simp
  next
    case True
    obtain r s' where r: "send_command tr STATUS_QUERY_CMD s = (r, s')"
      by (cases "send_command tr STATUS_QUERY_CMD s")
    with 2(1) [OF True] have v: "device_view s' = device_view s" by simp
    show ?thesis
    proof (cases r)
      case None
      with True r v show ?thesis by (subst status_query_loop.simps) simp
    next
      case (Some err)
      have "device_view (snd (status_query_loop tr (Suc attempt)
              (if attempt < 2 then sleep 1000 s' else s')))
            = device_view (if attempt < 2 then sleep 1000 s' else s')"
        using 2(2) [OF True r [symmetric] Some] .
      also have "\<dots> = device_view s" using v by (simp add: sleep_fields)
      finally show ?thesis
        using True r Some by (subst status_query_loop.simps) simp
    qed
  qed
next
  case (3 tr command s)
  show ?case
  proof (cases "client s \<noteq> Some True")
    case False
    then show ?thesis
      by (subst send_command.simps) (simp add: send_command_write_view)
  next
    case True
    obtain r s' where r: "async_connect tr s = (r, s')"
      by (cases "async_connect tr s")
    with 3 [OF True] have v: "device_view s' = device_view s" by simp
    with True r show ?thesis
      by (subst send_command.simps) (simp add: send_command_write_view split: option.splits)
  qed
qed

lemma pending_countdown_cancel:
  "\<forall>e \<in> set (pending_countdown s). fst e \<noteq> h \<Longrightarrow>
   pending_countdown (cancel h s) = pending_countdown s"
proof -
  assume a: "\<forall>e \<in> set (pending_countdown s). fst e \<noteq> h"
  have "filter (\<lambda>x. fst x \<noteq> h \<and> snd (snd x) = UpdateCountdown) (scheduled s) =
     filter (\<lambda>e. snd (snd e) = UpdateCountdown) (scheduled s)"
    by (rule filter_cong) (use a in \<open>fastforce simp: pending_countdown_def\<close>)+
  then show ?thesis
    by (simp add: pending_countdown_def cancel_def conj_commute)
qed

lemma handles_ok_disconnect_cancel:
  assumes "handles_ok s" "disconnect_timer s = Some h"
  shows "pending_countdown (cancel h s) = pending_countdown s"
  using assms
  by (intro pending_countdown_cancel) (auto simp: handles_ok_def list_all_iff)

lemma handles_ok_auto_off_cancel:
  assumes "handles_ok s" "auto_off_timer s = Some h"
  shows "pending_countdown (cancel h s) = pending_countdown s"
  using assms
  by (intro pending_countdown_cancel) (auto simp: handles_ok_def list_all_iff)

lemma handles_ok_cong:
  assumes "handles_ok s" "pending_countdown s' = pending_countdown s"
    "next_handle s \<le> next_handle s'"
    "disconnect_timer s' = disconnect_timer s \<or> disconnect_timer s' = None
      \<or> (\<exists>h. disconnect_timer s' = Some h \<and> next_handle s \<le> h)"
    "auto_off_timer s' = auto_off_timer s \<or> auto_off_timer s' = None"
  shows "handles_ok s'"
  using assms by (fastforce simp: handles_ok_def list_all_iff)

lemma send_command_write_handles:
  assumes "handles_ok s"
  shows "handles_ok (snd (send_command_write tr command s))"
    and "pending_countdown (snd (send_command_write tr command s)) = pending_countdown s"
proof -
  define s1 where "s1 = (case disconnect_timer s of Some h \<Rightarrow> cancel h s | None \<Rightarrow> s)"
  have p1: "pending_countdown s1 = pending_countdown s"
    using assms by (auto simp: s1_def handles_ok_disconnect_cancel split: option.splits)
  have f1: "next_handle s1 = next_handle s" "disconnect_timer s1 = disconnect_timer s"
    "auto_off_timer s1 = auto_off_timer s"
    by (auto simp: s1_def cancel_def split: option.splits)
  define s' where "s' = snd (send_command_write tr command s)"
  have p: "pending_countdown s' = pending_countdown s1"
    unfolding s'_def send_command_write_def s1_def [symmetric]
    by (auto simp: write_gatt_char_def sleep_def call_later_def pending_countdown_def Let_def
        split: option.splits prod.splits)
  have f: "next_handle s1 \<le> next_handle s'"
    "disconnect_timer s' = disconnect_timer s1
      \<or> (\<exists>h. disconnect_timer s' = Some h \<and> next_handle s1 \<le> h)"
    "auto_off_timer s' = auto_off_timer s1"
    unfolding s'_def send_command_write_def s1_def [symmetric]
    by (auto simp: write_gatt_char_def sleep_def call_later_def Let_def
        split: option.splits prod.splits)
  show "pending_countdown (snd (send_command_write tr command s)) = pending_countdown s"
    using p p1 by (simp add: s'_def)
  show "handles_ok (snd (send_command_write tr command s))"
    using handles_ok_cong [OF assms, of s'] p p1 f f1 unfolding s'_def by auto
qed

lemma handles_ok_client: "handles_ok (s\<lparr>client := c\<rparr>) = handles_ok s"
  "pending_countdown (s\<lparr>client := c\<rparr>) = pending_countdown s"
  by (simp_all add: handles_ok_def pending_countdown_def)

lemma handles_ok_sleep: "handles_ok (sleep ms s) = handles_ok s"
  "pending_countdown (sleep ms s) = pending_countdown s"
  by (simp_all add: handles_ok_def pending_countdown_def sleep_def)

lemma connect_handles:
  "handles_ok s \<Longrightarrow> handles_ok (snd (async_connect tr s)) \<and>
     pending_countdown (snd (async_connect tr s)) = pending_countdown s"
  "handles_ok s \<Longrightarrow> handles_ok (snd (status_query_loop tr attempt s)) \<and>
     pending_countdown (snd (status_query_loop tr attempt s)) = pending_countdown s"
  "handles_ok s \<Longrightarrow> handles_ok (snd (send_command tr command s)) \<and>
     pending_countdown (snd (send_command tr command s)) = pending_countdown s"
proof (induction tr s and tr attempt s and tr command s
    rule: async_connect_status_query_loop_send_command.induct)
  case (1 tr s)
  show ?case
  proof (cases "client s = Some True \<or> establish tr \<noteq> None \<or> start_notify tr \<noteq> None")
    case True
    with 1(2) show ?thesis
      by (subst (1 2) async_connect.simps)
        (auto simp: Let_def handles_ok_client split: option.splits)
  next
    case False
    then have c: "client s \<noteq> Some True" "establish tr = None" "start_notify tr = None"
      by auto
    have "handles_ok (sleep 1000 (s\<lparr>client := Some True\<rparr>))"
      using 1(2) by (simp add: handles_ok_sleep handles_ok_client)
    from 1(1) [OF c(1,2) refl c(3) this] c show ?thesis
      by (subst (1 2) async_connect.simps)
        (simp add: Let_def handles_ok_sleep handles_ok_client)
  qed
next
  case (2 tr attempt s)
  show ?case
  proof (cases "attempt < 5")
    case False
    with 2(3) show ?thesis by (subst (1 2) status_query_loop.simps) simp
  next
    case True
    obtain r s' where r: "send_command tr STATUS_QUERY_CMD s = (r, s')"
      by (cases "send_command tr STATUS_QUERY_CMD s")
    with 2(1) [OF True 2(3)] have v: "handles_ok s'" "pending_countdown s' = pending_countdown s"
      by simp_all
    show ?thesis
    proof (cases r)
      case None
      with True r v show ?thesis by (subst (1 2) status_query_loop.simps) simp
    next
      case (Some err)
      define s2 where "s2 = (if attempt < 2 then sleep 1000 s' else s')"
      have s2: "handles_ok s2" "pending_countdown s2 = pending_countdown s"
        using v by (simp_all add: s2_def handles_ok_sleep)
      from 2(2) [OF True r [symmetric] Some] s2
      have "handles_ok (snd (status_query_loop tr (Suc attempt) s2)) \<and>
        pending_countdown (snd (status_query_loop tr (Suc attempt) s2)) = pending_countdown s"
        by (simp add: s2_def)
      then show ?thesis
        using True r Some by (subst (1 2) status_query_loop.simps) (simp add: s2_def)
    qed
  qed
next
  case (3 tr command s)
  show ?case
  proof (cases "client s \<noteq> Some True")
    case False
    with 3(2) show ?thesis
      by (subst (1 2) send_command.simps) (simp add: send_command_write_handles)
  next
    case True
    obtain r s' where r: "async_connect tr s = (r, s')"
      by (cases "async_connect tr s")
    with 3(1) [OF True 3(2)] have v: "handles_ok s'" "pending_countdown s' = pending_countdown s"
      by simp_all
    with True r show ?thesis
      by (subst (1 2) send_command.simps)
        (simp add: send_command_write_handles split: option.splits)
  qed
qed

section \<open>Sending on a reliable transport\<close>

lemma async_connect_reliable:
  assumes "establish tr = None" "start_notify tr = None" "\<forall>k. write_result tr k = None"
  shows "fst (async_connect tr s) = None"
    and "client (snd (async_connect tr s)) = Some True"
    and "trace (snd (async_connect tr s)) = trace s @ connect_trace s"
proof -
  show "fst (async_connect tr s) = None" "client (snd (async_connect tr s)) = Some True"
    "trace (snd (async_connect tr s)) = trace s @ connect_trace s"
  proof (atomize (full), cases "client s = Some True")
    case True
    then show "fst (async_connect tr s) = None \<and> client (snd (async_connect tr s)) = Some True \<and>
      trace (snd (async_connect tr s)) = trace s @ connect_trace s"
      by (simp add: async_connect.simps connect_trace_def)
  next
    case False
    define s2 where "s2 = sleep 1000 (s\<lparr>client := Some True\<rparr>)"
    have s2: "client s2 = Some True" "trace s2 = trace s @ [Sleep 1000]"
      by (simp_all add: s2_def sleep_def)
    have w: "write_result tr (write_calls s2) = None" using assms(3) by simp
    have c: "async_connect tr s = status_query_loop tr 0 s2"
      using False assms by (simp add: async_connect.simps s2_def Let_def)
    have q: "send_command tr STATUS_QUERY_CMD s2 = send_command_write tr STATUS_QUERY_CMD s2"
      using s2 by (simp add: send_command_connected)
    obtain s3 where e: "send_command_write tr STATUS_QUERY_CMD s2 = (None, s3)"
      using send_command_write_ok(1) [OF s2(1) w, of STATUS_QUERY_CMD]
      by (cases "send_command_write tr STATUS_QUERY_CMD s2") simp
    have l: "status_query_loop tr 0 s2 = send_command_write tr STATUS_QUERY_CMD s2"
      by (subst status_query_loop.simps) (simp add: q e)
    show "fst (async_connect tr s) = None \<and> client (snd (async_connect tr s)) = Some True \<and>
      trace (snd (async_connect tr s)) = trace s @ connect_trace s"
      using send_command_write_ok [OF s2(1) w, of STATUS_QUERY_CMD] s2 False
      by (simp add: c l send_command_write_client connect_trace_def)
  qed
qed

lemma send_command_reliable:
  assumes "establish tr = None" "start_notify tr = None" "\<forall>k. write_result tr k = None"
  shows "fst (send_command tr command s) = None"
    and "client (snd (send_command tr command s)) = Some True"
    and "trace (snd (send_command tr command s))
           = trace s @ connect_trace s @ [Write command, Sleep 500]"
proof -
  show "fst (send_command tr command s) = None"
    "client (snd (send_command tr command s)) = Some True"
    "trace (snd (send_command tr command s))
           = trace s @ connect_trace s @ [Write command, Sleep 500]"
  proof (atomize (full), cases "client s = Some True")
    case True
    have w: "write_result tr (write_calls s) = None" using assms(3) by simp
    show "fst (send_command tr command s) = None \<and>
      client (snd (send_command tr command s)) = Some True \<and>
      trace (snd (send_command tr command s))
           = trace s @ connect_trace s @ [Write command, Sleep 500]"
      using send_command_write_ok [OF True w, of command] True
      by (simp add: send_command_connected send_command_write_client connect_trace_def)
  next
    case False
    define s1 where "s1 = snd (async_connect tr s)"
    have a: "async_connect tr s = (None, s1)"
      using async_connect_reliable(1) [OF assms, of s] by (simp add: s1_def prod_eq_iff)
    have s1: "client s1 = Some True" "trace s1 = trace s @ connect_trace s"
      using async_connect_reliable(2,3) [OF assms, of s] by (simp_all add: s1_def)
    have w: "write_result tr (write_calls s1) = None" using assms(3) by simp
    have c: "send_command tr command s = send_command_write tr command s1"
      using False a by (subst send_command.simps) simp
    show "fst (send_command tr command s) = None \<and>
      client (snd (send_command tr command s)) = Some True \<and>
      trace (snd (send_command tr command s))
           = trace s @ connect_trace s @ [Write command, Sleep 500]"
      using send_command_write_ok [OF s1(1) w, of command] s1
      by (simp add: c send_command_write_client)
  qed
qed

lemma send_command_reliable_eq:
  assumes "establish tr = None" "start_notify tr = None" "\<forall>k. write_result tr k = None"
  shows "send_command tr command s = (None, snd (send_command tr command s))"
  using send_command_reliable(1) [OF assms, of command s] by (simp add: prod_eq_iff)

lemma frames_append: "frames (xs @ ys) = frames xs @ frames ys"
  by (induction xs rule: frames.induct) simp_all

lemma updates_append: "updates (xs @ ys) = updates xs @ updates ys"
  by (induction xs rule: updates.induct) simp_all

lemma device_viewD:
  assumes "device_view a = device_view b"
  shows "is_on a = is_on b" "timer_remaining a = timer_remaining b"
    "timer_duration a = timer_duration b" "countdown_timer a = countdown_timer b"
    "countdown_start_time a = countdown_start_time b" "auto_off_timer a = auto_off_timer b"
    "expected_disconnect a = expected_disconnect b" "tasks a = tasks b"
  using assms by (simp_all add: device_view_def)

lemma connect_trace_connected: "client s = Some True \<Longrightarrow> connect_trace s = []"
  by (simp add: connect_trace_def)

lemma clear_auto_off_fields:
  "trace (case auto_off_timer s of Some h \<Rightarrow> (cancel h s)\<lparr>auto_off_timer := None\<rparr> | None \<Rightarrow> s)
     = trace s"
  "is_on (case auto_off_timer s of Some h \<Rightarrow> (cancel h s)\<lparr>auto_off_timer := None\<rparr> | None \<Rightarrow> s)
     = is_on s"
  "auto_off_timer
     (case auto_off_timer s of Some h \<Rightarrow> (cancel h s)\<lparr>auto_off_timer := None\<rparr> | None \<Rightarrow> s)
     = None"
  "timer_remaining
     (case auto_off_timer s of Some h \<Rightarrow> (cancel h s)\<lparr>auto_off_timer := None\<rparr> | None \<Rightarrow> s)
     = timer_remaining s"
  "timer_duration
     (case auto_off_timer s of Some h \<Rightarrow> (cancel h s)\<lparr>auto_off_timer := None\<rparr> | None \<Rightarrow> s)
     = timer_duration s"
  "countdown_timer
     (case auto_off_timer s of Some h \<Rightarrow> (cancel h s)\<lparr>auto_off_timer := None\<rparr> | None \<Rightarrow> s)
     = countdown_timer s"
  "countdown_start_time
     (case auto_off_timer s of Some h \<Rightarrow> (cancel h s)\<lparr>auto_off_timer := None\<rparr> | None \<Rightarrow> s)
     = countdown_start_time s"
  "expected_disconnect
     (case auto_off_timer s of Some h \<Rightarrow> (cancel h s)\<lparr>auto_off_timer := None\<rparr> | None \<Rightarrow> s)
     = expected_disconnect s"
  "client
     (case auto_off_timer s of Some h \<Rightarrow> (cancel h s)\<lparr>auto_off_timer := None\<rparr> | None \<Rightarrow> s)
     = client s"
  by (simp_all add: cancel_def split: option.splits)

lemma turn_on_with_timer_reliable:
  assumes rel: "establish tr = None" "start_notify tr = None" "\<forall>k. write_result tr k = None"
    and td: "timer_duration s > 0"
    and cmd: "create_timer_command (timer_duration s) = Inr timer_cmd"
  shows "fst (async_turn_on tr s) = None"
    and "is_on (snd (async_turn_on tr s))"
    and "trace (snd (async_turn_on tr s)) =
           trace s @ connect_trace s @
             [Write timer_cmd, Sleep 500, Sleep 200, Write TURN_ON_CMD, Sleep 500,
              Sleep 500, Updated True None, Write STATUS_QUERY_CMD, Sleep 500]"
proof -
  obtain s1 where 1: "send_command tr timer_cmd s = (None, s1)"
    and s1: "client s1 = Some True"
      "trace s1 = trace s @ connect_trace s @ [Write timer_cmd, Sleep 500]"
      "device_view s1 = device_view s"
    using send_command_reliable [OF rel, of timer_cmd s] connect_view(3) [of tr timer_cmd s]
    by (cases "send_command tr timer_cmd s") simp
  define s2 where "s2 = sleep 200 s1"
  have s2: "client s2 = Some True" "trace s2 = trace s1 @ [Sleep 200]"
    "device_view s2 = device_view s1"
    using s1 by (simp_all add: s2_def sleep_fields)
  obtain s3 where 2: "send_command tr TURN_ON_CMD s2 = (None, s3)"
    and s3: "client s3 = Some True"
      "trace s3 = trace s2 @ [Write TURN_ON_CMD, Sleep 500]"
      "device_view s3 = device_view s2"
    using send_command_reliable [OF rel, of TURN_ON_CMD s2] connect_view(3) [of tr TURN_ON_CMD s2]
      connect_trace_connected [OF s2(1)]
    by (cases "send_command tr TURN_ON_CMD s2") simp
  define s5 where "s5 = async_set_updated_data True None ((sleep 500 s3)\<lparr>is_on := True\<rparr>)"
  have s5: "client s5 = Some True" "trace s5 = trace s3 @ [Sleep 500, Updated True None]"
    "is_on s5" "timer_duration s5 = timer_duration s"
    using s3 s2 s1 device_viewD(3) [of s3 s2] device_viewD(3) [of s2 s1] device_viewD(3) [of s1 s]
    by (simp_all add: s5_def sleep_def async_set_updated_data_def)
  obtain s6 where 3: "query_status tr s5 = (None, s6)"
    and s6: "trace s6 = trace s5 @ [Write STATUS_QUERY_CMD, Sleep 500]" "is_on s6"
    using send_command_reliable [OF rel, of STATUS_QUERY_CMD s5]
      connect_view(3) [of tr STATUS_QUERY_CMD s5, THEN device_viewD(1)]
      connect_trace_connected [OF s5(1)] s5(3)
    by (cases "send_command tr STATUS_QUERY_CMD s5") (simp add: query_status_def)
  have r: "async_turn_on tr s =
      (None, case auto_off_timer s6 of
               Some h \<Rightarrow> (cancel h s6)\<lparr>auto_off_timer := None\<rparr> | None \<Rightarrow> s6)"
    using td s5(4)
    by (simp add: async_turn_on_def then_do_def returns_def cmd 1 s2_def [symmetric] 2
        s5_def [symmetric] 3)
  show "fst (async_turn_on tr s) = None" by (simp add: r)
  show "is_on (snd (async_turn_on tr s))" by (simp add: r clear_auto_off_fields s6)
  show "trace (snd (async_turn_on tr s)) =
           trace s @ connect_trace s @
             [Write timer_cmd, Sleep 500, Sleep 200, Write TURN_ON_CMD, Sleep 500,
              Sleep 500, Updated True None, Write STATUS_QUERY_CMD, Sleep 500]"
    by (simp add: r clear_auto_off_fields s6 s5 s3 s2 s1)
qed

lemma turn_on_without_timer_reliable:
  assumes rel: "establish tr = None" "start_notify tr = None" "\<forall>k. write_result tr k = None"
    and td: "timer_duration s \<le> 0"
  shows "fst (async_turn_on tr s) = None"
    and "is_on (snd (async_turn_on tr s))"
    and "trace (snd (async_turn_on tr s)) =
           trace s @ connect_trace s @
             [Write TURN_ON_CMD, Sleep 500, Sleep 500, Updated True None]"
proof -
  obtain s3 where 2: "send_command tr TURN_ON_CMD s = (None, s3)"
    and s3: "trace s3 = trace s @ connect_trace s @ [Write TURN_ON_CMD, Sleep 500]"
      "device_view s3 = device_view s"
    using send_command_reliable [OF rel, of TURN_ON_CMD s] connect_view(3) [of tr TURN_ON_CMD s]
    by (cases "send_command tr TURN_ON_CMD s") simp
  define s5 where "s5 = async_set_updated_data True None ((sleep 500 s3)\<lparr>is_on := True\<rparr>)"
  have s5: "trace s5 = trace s3 @ [Sleep 500, Updated True None]"
    "is_on s5" "timer_duration s5 = timer_duration s"
    using s3 device_viewD(3) [of s3 s]
    by (simp_all add: s5_def sleep_def async_set_updated_data_def)
  have r: "async_turn_on tr s =
      (None, case auto_off_timer s5 of
               Some h \<Rightarrow> (cancel h s5)\<lparr>auto_off_timer := None\<rparr> | None \<Rightarrow> s5)"
    using td s5(3)
    by (simp add: async_turn_on_def then_do_def returns_def 2 s5_def [symmetric])
  show "fst (async_turn_on tr s) = None" by (simp add: r)
  show "is_on (snd (async_turn_on tr s))" by (simp add: r clear_auto_off_fields s5)
  show "trace (snd (async_turn_on tr s)) =
           trace s @ connect_trace s @
             [Write TURN_ON_CMD, Sleep 500, Sleep 500, Updated True None]"
    by (simp add: r clear_auto_off_fields s5 s3)
qed

section \<open>Turning on\<close>

lemma frames_connect_trace:
  "frames (connect_trace s) = (if client s = Some True then [] else [STATUS_QUERY_CMD])"
  by (simp add: connect_trace_def)

lemma create_timer_command_Inr: "\<exists>timer_cmd. create_timer_command m = Inr timer_cmd"
  by (simp add: create_timer_command_eq)

text \<open>
  Claim C9 says that \<open>async_turn_on\<close> with a timer configured issues exactly the set-timer
  frame, the power-on frame and the status query, and with no timer the power-on frame
  only. From a coordinator that is not connected, as it is after \<open>__init__\<close> or after the
  idle disconnect, the first \<open>_send_command\<close> connects, and \<open>async_connect\<close> sends a status
  query of its own before any of them.
\<close>

theorem turn_on_frames_when_not_connected_counterexample:
  "frames (trace (snd (async_turn_on reliable (init\<lparr>timer_duration := 20\<rparr>)))) =
     [STATUS_QUERY_CMD, [0x3A, 0x01, 0x31, 0x00, 0x02, 0x04, 0xB0, 0xE8, 0x0A],
      TURN_ON_CMD, STATUS_QUERY_CMD] \<and>
   frames (trace (snd (async_turn_on reliable (init\<lparr>timer_duration := 0\<rparr>)))) =
     [STATUS_QUERY_CMD, TURN_ON_CMD]"
proof -
  have rel: "establish reliable = None" "start_notify reliable = None"
    "\<forall>k. write_result reliable k = None"
    by (simp_all add: reliable_def)
  have c: "create_timer_command (timer_duration (init\<lparr>timer_duration := 20\<rparr>)) =
     Inr [0x3A, 0x01, 0x31, 0x00, 0x02, 0x04, 0xB0, 0xE8, 0x0A]"
    by (simp add: create_timer_command_eq)
  show ?thesis
    using turn_on_with_timer_reliable(3) [OF rel _ c]
      turn_on_without_timer_reliable(3) [OF rel, of "init\<lparr>timer_duration := 0\<rparr>"]
    by (simp add: init_def connect_trace_def)
qed

text \<open>
  Claim C9, amended. On a transport where connecting and writing succeed, \<open>async_turn_on\<close>
  returns with \<open>is_on\<close> set. With a timer duration above zero it writes the set-timer
  frame of that duration, sleeps, writes the power-on frame, sleeps, sets \<open>is_on\<close> and
  notifies the observers, and then writes the status query; with a duration of zero or
  less it writes the power-on frame only. These are all the frames when the client is
  connected; when it is not, the status query of \<open>async_connect\<close> comes before them.
\<close>

theorem turn_on_sequence:
  "establish tr = None \<and> start_notify tr = None \<and> (\<forall>k. write_result tr k = None) \<longrightarrow>
     fst (async_turn_on tr s) = None \<and> is_on (snd (async_turn_on tr s)) \<and>
     (timer_duration s > 0 \<longrightarrow>
        (\<exists>timer_cmd. create_timer_command (timer_duration s) = Inr timer_cmd \<and>
           trace (snd (async_turn_on tr s)) =
             trace s @ connect_trace s @
               [Write timer_cmd, Sleep 500, Sleep 200, Write TURN_ON_CMD, Sleep 500,
                Sleep 500, Updated True None, Write STATUS_QUERY_CMD, Sleep 500] \<and>
           frames (trace (snd (async_turn_on tr s))) =
             frames (trace s) @ (if client s = Some True then [] else [STATUS_QUERY_CMD]) @
               [timer_cmd, TURN_ON_CMD, STATUS_QUERY_CMD])) \<and>
     (timer_duration s \<le> 0 \<longrightarrow>
        trace (snd (async_turn_on tr s)) =
          trace s @ connect_trace s @
            [Write TURN_ON_CMD, Sleep 500, Sleep 500, Updated True None] \<and>
        frames (trace (snd (async_turn_on tr s))) =
          frames (trace s) @ (if client s = Some True then [] else [STATUS_QUERY_CMD]) @
            [TURN_ON_CMD])"
proof (intro impI, elim conjE)
  assume rel: "establish tr = None" "start_notify tr = None" "\<forall>k. write_result tr k = None"
  obtain timer_cmd where c: "create_timer_command (timer_duration s) = Inr timer_cmd"
    using create_timer_command_Inr by blast
  have ret: "fst (async_turn_on tr s) = None" "is_on (snd (async_turn_on tr s))"
    using turn_on_with_timer_reliable(1,2) [OF rel _ c]
      turn_on_without_timer_reliable(1,2) [OF rel, of s]
    by (cases "timer_duration s > 0"; simp)+
  have with_timer: "trace (snd (async_turn_on tr s)) =
             trace s @ connect_trace s @
               [Write timer_cmd, Sleep 500, Sleep 200, Write TURN_ON_CMD, Sleep 500,
                Sleep 500, Updated True None, Write STATUS_QUERY_CMD, Sleep 500] \<and>
           frames (trace (snd (async_turn_on tr s))) =
             frames (trace s) @ (if client s = Some True then [] else [STATUS_QUERY_CMD]) @
               [timer_cmd, TURN_ON_CMD, STATUS_QUERY_CMD]"
    if "timer_duration s > 0"
    using turn_on_with_timer_reliable(3) [OF rel that c]
    by (simp add: frames_append frames_connect_trace)
  have without_timer: "trace (snd (async_turn_on tr s)) =
          trace s @ connect_trace s @
            [Write TURN_ON_CMD, Sleep 500, Sleep 500, Updated True None] \<and>
        frames (trace (snd (async_turn_on tr s))) =
          frames (trace s) @ (if client s = Some True then [] else [STATUS_QUERY_CMD]) @
            [TURN_ON_CMD]"
    if "timer_duration s \<le> 0"
    using turn_on_without_timer_reliable(3) [OF rel that]
    by (simp add: frames_append frames_connect_trace)
  show "fst (async_turn_on tr s) = None \<and> is_on (snd (async_turn_on tr s)) \<and>
     (timer_duration s > 0 \<longrightarrow>
        (\<exists>timer_cmd. create_timer_command (timer_duration s) = Inr timer_cmd \<and>
           trace (snd (async_turn_on tr s)) =
             trace s @ connect_trace s @
               [Write timer_cmd, Sleep 500, Sleep 200, Write TURN_ON_CMD, Sleep 500,
                Sleep 500, Updated True None, Write STATUS_QUERY_CMD, Sleep 500] \<and>
           frames (trace (snd (async_turn_on tr s))) =
             frames (trace s) @ (if client s = Some True then [] else [STATUS_QUERY_CMD]) @
               [timer_cmd, TURN_ON_CMD, STATUS_QUERY_CMD])) \<and>
     (timer_duration s \<le> 0 \<longrightarrow>
        trace (snd (async_turn_on tr s)) =
          trace s @ connect_trace s @
            [Write TURN_ON_CMD, Sleep 500, Sleep 500, Updated True None] \<and>
        frames (trace (snd (async_turn_on tr s))) =
          frames (trace s) @ (if client s = Some True then [] else [STATUS_QUERY_CMD]) @
            [TURN_ON_CMD])"
    using ret c with_timer without_timer by blast
qed

theorem turn_on_sequence_witness:
  "establish reliable = None \<and> start_notify reliable = None \<and>
   is_on (snd (async_turn_on reliable (ex_connected\<lparr>timer_duration := 20\<rparr>))) \<and>
   frames (trace (snd (async_turn_on reliable (ex_connected\<lparr>timer_duration := 20\<rparr>)))) =
     [[0x3A, 0x01, 0x31, 0x00, 0x02, 0x04, 0xB0, 0xE8, 0x0A], TURN_ON_CMD, STATUS_QUERY_CMD] \<and>
   frames (trace (snd (async_turn_on reliable (ex_connected\<lparr>timer_duration := 0\<rparr>)))) =
     [TURN_ON_CMD]"
  using turn_on_sequence [of reliable "ex_connected\<lparr>timer_duration := 20\<rparr>"]
    turn_on_sequence [of reliable "ex_connected\<lparr>timer_duration := 0\<rparr>"]
  by (simp add: reliable_def ex_connected_def init_def create_timer_command_eq
      connect_trace_def)

section \<open>Turning off\<close>

lemma clear_auto_off_handles:
  assumes "handles_ok s"
  shows "pending_countdown
      (case auto_off_timer s of Some h \<Rightarrow> (cancel h s)\<lparr>auto_off_timer := None\<rparr> | None \<Rightarrow> s)
      = pending_countdown s"
    and "handles_ok
      (case auto_off_timer s of Some h \<Rightarrow> (cancel h s)\<lparr>auto_off_timer := None\<rparr> | None \<Rightarrow> s)"
proof -
  define s0 where
    "s0 = (case auto_off_timer s of Some h \<Rightarrow> (cancel h s)\<lparr>auto_off_timer := None\<rparr> | None \<Rightarrow> s)"
  have "pending_countdown ((cancel h s)\<lparr>auto_off_timer := None\<rparr>) = pending_countdown (cancel h s)"
    for h by (simp add: pending_countdown_def)
  then have p: "pending_countdown s0 = pending_countdown s"
    using assms by (auto simp: s0_def handles_ok_auto_off_cancel split: option.splits)
  have "handles_ok s0"
    by (rule handles_ok_cong [OF assms p])
      (auto simp: s0_def cancel_def split: option.splits)
  with p show "pending_countdown
      (case auto_off_timer s of Some h \<Rightarrow> (cancel h s)\<lparr>auto_off_timer := None\<rparr> | None \<Rightarrow> s)
      = pending_countdown s"
    and "handles_ok
      (case auto_off_timer s of Some h \<Rightarrow> (cancel h s)\<lparr>auto_off_timer := None\<rparr> | None \<Rightarrow> s)"
    by (simp_all add: s0_def)
qed

lemma turn_off_frame:
  shows "timer_remaining (snd (async_turn_off tr s)) = timer_remaining s"
    and "timer_duration (snd (async_turn_off tr s)) = timer_duration s"
    and "countdown_timer (snd (async_turn_off tr s)) = countdown_timer s"
    and "countdown_start_time (snd (async_turn_off tr s)) = countdown_start_time s"
    and "auto_off_timer (snd (async_turn_off tr s)) = None"
    and "is_on (snd (async_turn_off tr s))
           = (if fst (async_turn_off tr s) = None then False else is_on s)"
    and "handles_ok s \<Longrightarrow> pending_countdown (snd (async_turn_off tr s)) = pending_countdown s"
proof -
  define s0 where
    "s0 = (case auto_off_timer s of Some h \<Rightarrow> (cancel h s)\<lparr>auto_off_timer := None\<rparr> | None \<Rightarrow> s)"
  obtain r s1 where 1: "send_command tr TURN_OFF_CMD s0 = (r, s1)"
    by (cases "send_command tr TURN_OFF_CMD s0")
  have v: "device_view s1 = device_view s0"
    using connect_view(3) [of tr TURN_OFF_CMD s0] 1 by simp
  have h: "pending_countdown s1 = pending_countdown s" if "handles_ok s"
    using connect_handles(3) [of s0 tr TURN_OFF_CMD] clear_auto_off_handles [OF that] 1
    by (simp add: s0_def)
  have off: "async_turn_off tr s =
      (case r of None \<Rightarrow> (None, async_set_updated_data False None (s1\<lparr>is_on := False\<rparr>))
       | Some e \<Rightarrow> (Some e, s1))"
    by (simp add: async_turn_off_def then_do_def returns_def s0_def [symmetric] 1
        split: option.splits)
  note f = device_viewD [OF v] clear_auto_off_fields [of s, folded s0_def]
  show "timer_remaining (snd (async_turn_off tr s)) = timer_remaining s"
    using f by (simp add: off async_set_updated_data_def split: option.splits)
  show "timer_duration (snd (async_turn_off tr s)) = timer_duration s"
    using f by (simp add: off async_set_updated_data_def split: option.splits)
  show "countdown_timer (snd (async_turn_off tr s)) = countdown_timer s"
    using f by (simp add: off async_set_updated_data_def split: option.splits)
  show "countdown_start_time (snd (async_turn_off tr s)) = countdown_start_time s"
    using f by (simp add: off async_set_updated_data_def split: option.splits)
  show "auto_off_timer (snd (async_turn_off tr s)) = None"
    using f by (simp add: off async_set_updated_data_def split: option.splits)
  show "is_on (snd (async_turn_off tr s))
           = (if fst (async_turn_off tr s) = None then False else is_on s)"
    using f by (auto simp: off async_set_updated_data_def split: option.splits)
  show "pending_countdown (snd (async_turn_off tr s)) = pending_countdown s" if "handles_ok s"
    using h [OF that]
    by (simp add: off async_set_updated_data_def pending_countdown_def split: option.splits)
qed

lemma turn_off_reliable:
  assumes rel: "establish tr = None" "start_notify tr = None" "\<forall>k. write_result tr k = None"
  shows "fst (async_turn_off tr s) = None"
    and "trace (snd (async_turn_off tr s)) =
      trace s @ connect_trace s @ [Write TURN_OFF_CMD, Sleep 500, Updated False None]"
proof -
  define s0 where
    "s0 = (case auto_off_timer s of Some h \<Rightarrow> (cancel h s)\<lparr>auto_off_timer := None\<rparr> | None \<Rightarrow> s)"
  have s0: "trace s0 = trace s" "connect_trace s0 = connect_trace s"
    using clear_auto_off_fields(1,9) [of s] by (simp_all add: s0_def connect_trace_def)
  obtain s1 where 1: "send_command tr TURN_OFF_CMD s0 = (None, s1)"
    and s1: "trace s1 = trace s0 @ connect_trace s0 @ [Write TURN_OFF_CMD, Sleep 500]"
    using send_command_reliable [OF rel, of TURN_OFF_CMD s0]
    by (cases "send_command tr TURN_OFF_CMD s0") simp
  have off: "async_turn_off tr s = (None, async_set_updated_data False None (s1\<lparr>is_on := False\<rparr>))"
    by (simp add: async_turn_off_def then_do_def returns_def s0_def [symmetric] 1)
  show "fst (async_turn_off tr s) = None" by (simp add: off)
  show "trace (snd (async_turn_off tr s)) =
      trace s @ connect_trace s @ [Write TURN_OFF_CMD, Sleep 500, Updated False None]"
    by (simp add: off async_set_updated_data_def s1 s0)
qed

lemma status_zero_stops_countdown:
  assumes "length data > 9" "data ! 0 = 0x2A" "data ! 2 = 0x10" "data ! 8 = 0" "data ! 9 = 0"
    and "timer_remaining s > 0"
  shows "countdown_timer (snd (notification_handler data s)) = None"
    and "timer_remaining (snd (notification_handler data s)) = 0"
  using assms
  by (auto simp: handler_status status_update_def Let_def async_set_updated_data_def
      stop_countdown_fields)

subsection \<open>Cancelled timers leave the loop\<close>

lemma scheduled_grows_refl: "scheduled_grows s s"
  by (simp add: scheduled_grows_def list_all_iff)

lemma scheduled_grows_trans:
  "scheduled_grows a b \<Longrightarrow> scheduled_grows b c \<Longrightarrow> scheduled_grows a c"
  by (fastforce simp: scheduled_grows_def list_all_iff)

lemma scheduled_grows_eq:
  "scheduled s' = scheduled s \<Longrightarrow> next_handle s' = next_handle s \<Longrightarrow> scheduled_grows s s'"
  by (simp add: scheduled_grows_def list_all_iff)

lemma send_command_write_grows:
  "scheduled_grows s (snd (send_command_write tr command s))"
  by (auto simp: scheduled_grows_def list_all_iff send_command_write_def write_gatt_char_def
      cancel_def sleep_def call_later_def Let_def split: option.splits prod.splits if_splits)

lemma connect_grows:
  "scheduled_grows s (snd (async_connect tr s))"
  "scheduled_grows s (snd (status_query_loop tr attempt s))"
  "scheduled_grows s (snd (send_command tr command s))"
proof (induction tr s and tr attempt s and tr command s
    rule: async_connect_status_query_loop_send_command.induct)
  case (1 tr s)
  show ?case
  proof (cases "client s = Some True \<or> establish tr \<noteq> None \<or> start_notify tr \<noteq> None")
    case True
    then show ?thesis
      by (subst async_connect.simps)
        (auto simp: Let_def scheduled_grows_def list_all_iff split: option.splits)
  next
    case False
    then have c: "client s \<noteq> Some True" "establish tr = None" "start_notify tr = None"
      by auto
    have "scheduled_grows s (sleep 1000 (s\<lparr>client := Some True\<rparr>))"
      by (rule scheduled_grows_eq) (simp_all add: sleep_def)
    from scheduled_grows_trans [OF this 1 [OF c(1,2) refl c(3)]] c show ?thesis
      by (subst async_connect.simps) (simp add: Let_def)
  qed
next
  case (2 tr attempt s)
  show ?case
  proof (cases "attempt < 5")
    case False
    then show ?thesis
      by (subst status_query_loop.simps) (simp add: scheduled_grows_refl)
  next
    case True
    obtain r s' where r: "send_command tr STATUS_QUERY_CMD s = (r, s')"
      by (cases "send_command tr STATUS_QUERY_CMD s")
    with 2(1) [OF True] have v: "scheduled_grows s s'" by simp
    show ?thesis
    proof (cases r)
      case None
      with True r v show ?thesis by (subst status_query_loop.simps) simp
    next
      case (Some err)
      define s2 where "s2 = (if attempt < 2 then sleep 1000 s' else s')"
      have "scheduled_grows s' s2"
        by (rule scheduled_grows_eq) (simp_all add: s2_def sleep_def)
      with v have s2: "scheduled_grows s s2" by (rule scheduled_grows_trans)
      from 2(2) [OF True r [symmetric] Some]
      have "scheduled_grows s2 (snd (status_query_loop tr (Suc attempt) s2))"
        by (simp add: s2_def)
      with s2 have "scheduled_grows s (snd (status_query_loop tr (Suc attempt) s2))"
        by (rule scheduled_grows_trans)
      then show ?thesis
        using True r Some by (subst status_query_loop.simps) (simp add: s2_def)
    qed
  qed
next
  case (3 tr command s)
  show ?case
  proof (cases "client s \<noteq> Some True")
    case False
    then show ?thesis
      by (subst send_command.simps) (simp add: send_command_write_grows)
  next
    case True
    obtain r s' where r: "async_connect tr s = (r, s')"
      by (cases "async_connect tr s")
    with 3 [OF True] have v: "scheduled_grows s s'" by simp
    have "scheduled_grows s (snd (send_command_write tr command s'))"
      using v send_command_write_grows by (rule scheduled_grows_trans)
    with True r v show ?thesis
      by (subst send_command.simps) (simp split: option.splits)
  qed
qed

lemma turn_off_cancels_auto_off:
  assumes "auto_off_timer s = Some h" "h < next_handle s"
  shows "h \<notin> fst ` set (scheduled (snd (async_turn_off tr s)))"
proof -
  define s0 where "s0 = (cancel h s)\<lparr>auto_off_timer := None\<rparr>"
  have s0: "h \<notin> fst ` set (scheduled s0)" "next_handle s0 = next_handle s"
    by (auto simp: s0_def cancel_def)
  obtain r s1 where 1: "send_command tr TURN_OFF_CMD s0 = (r, s1)"
    by (cases "send_command tr TURN_OFF_CMD s0")
  have "scheduled_grows s0 s1"
    using connect_grows(3) [of s0 tr TURN_OFF_CMD] 1 by simp
  then have s1: "h \<notin> fst ` set (scheduled s1)"
    using s0 assms(2) by (fastforce simp: scheduled_grows_def list_all_iff)
  have "scheduled (snd (async_turn_off tr s)) = scheduled s1"
    using assms(1)
    by (simp add: async_turn_off_def then_do_def returns_def s0_def [symmetric] 1
        async_set_updated_data_def split: option.splits)
  with s1 show ?thesis by simp
qed

lemma status_zero_cancels_countdown:
  assumes "length data > 9" "data ! 0 = 0x2A" "data ! 2 = 0x10" "data ! 8 = 0" "data ! 9 = 0"
    and "timer_remaining s > 0" "countdown_timer s = Some h"
  shows "scheduled (snd (notification_handler data s)) = filter (\<lambda>e. fst e \<noteq> h) (scheduled s)"
  using assms
  by (auto simp: handler_status status_update_def Let_def async_set_updated_data_def
      stop_countdown_def cancel_def)

lemma status_zero_no_countdown_pending:
  assumes "length data > 9" "data ! 0 = 0x2A" "data ! 2 = 0x10" "data ! 8 = 0" "data ! 9 = 0"
    and "timer_remaining s > 0" "countdown_timer s = Some h"
  shows "h \<notin> fst ` set (scheduled (snd (notification_handler data s)))"
    and "\<forall>e \<in> set (pending_countdown s). fst e = h \<Longrightarrow>
      pending_countdown (snd (notification_handler data s)) = []"
proof -
  note eq = status_zero_cancels_countdown [OF assms]
  show "h \<notin> fst ` set (scheduled (snd (notification_handler data s)))"
    by (auto simp: eq)
  show "pending_countdown (snd (notification_handler data s)) = []"
    if "\<forall>e \<in> set (pending_countdown s). fst e = h"
    using that by (fastforce simp: eq pending_countdown_def filter_empty_conv)
qed

lemma update_countdown_scheduled:
  "scheduled (update_countdown s) =
     (if timer_remaining s > 1
      then scheduled s @ [(next_handle s, COUNTDOWN_INTERVAL, UpdateCountdown)]
      else scheduled s)"
  by (auto simp: update_countdown_def Let_def async_set_updated_data_def call_later_def
      create_task_def split: prod.splits)

text \<open>
  Claim C10. \<open>async_turn_off\<close> leaves the remaining seconds, the timer duration and the
  countdown as they are, whatever the transport does. It cancels the auto-off timer: the
  field is cleared and the handle is no longer pending in the loop. When the command went
  out it sets \<open>is_on\<close> to false. The countdown callback stays pending, so the next tick
  still counts down and, while more than one second is left, schedules the tick after
  it. What ends the countdown is a later tick at one second, which schedules nothing, or
  a status notification with zero seconds left, which cancels the countdown handle, so
  that no countdown callback is pending any more.
\<close>

theorem turn_off_keeps_countdown:
  "(let r = async_turn_off tr s; s' = snd r
    in timer_remaining s' = timer_remaining s \<and> timer_duration s' = timer_duration s \<and>
       countdown_timer s' = countdown_timer s \<and>
       countdown_start_time s' = countdown_start_time s \<and>
       auto_off_timer s' = None \<and>
       (\<forall>h. auto_off_timer s = Some h \<and> h < next_handle s \<longrightarrow>
            h \<notin> fst ` set (scheduled s')) \<and>
       is_on s' = (if fst r = None then False else is_on s) \<and>
       (handles_ok s \<longrightarrow> pending_countdown s' = pending_countdown s) \<and>
       timer_remaining (update_countdown s') =
         (if timer_remaining s > 0 then timer_remaining s - 1 else timer_remaining s) \<and>
       (countdown_timer (update_countdown s') \<noteq> None) = (timer_remaining s > 1) \<and>
       scheduled (update_countdown s') =
         (if timer_remaining s > 1
          then scheduled s' @ [(next_handle s', COUNTDOWN_INTERVAL, UpdateCountdown)]
          else scheduled s') \<and>
       (\<forall>data. length data > 9 \<and> data ! 0 = 0x2A \<and> data ! 2 = 0x10 \<and>
               data ! 8 = 0 \<and> data ! 9 = 0 \<and> timer_remaining s > 0 \<longrightarrow>
               countdown_timer (snd (notification_handler data s')) = None \<and>
               timer_remaining (snd (notification_handler data s')) = 0 \<and>
               (\<forall>h. countdown_timer s = Some h \<longrightarrow>
                    h \<notin> fst ` set (scheduled (snd (notification_handler data s'))) \<and>
                    (handles_ok s \<and> (\<forall>e \<in> set (pending_countdown s). fst e = h) \<longrightarrow>
                       pending_countdown (snd (notification_handler data s')) = []))) \<and>
       (establish tr = None \<and> start_notify tr = None \<and> (\<forall>k. write_result tr k = None) \<longrightarrow>
          fst r = None \<and>
          trace s' = trace s @ connect_trace s @ [Write TURN_OFF_CMD, Sleep 500, Updated False None]))"
proof -
  define s' where "s' = snd (async_turn_off tr s)"
  have f: "timer_remaining s' = timer_remaining s" "timer_duration s' = timer_duration s"
    "countdown_timer s' = countdown_timer s" "countdown_start_time s' = countdown_start_time s"
    "auto_off_timer s' = None"
    "is_on s' = (if fst (async_turn_off tr s) = None then False else is_on s)"
    "handles_ok s \<longrightarrow> pending_countdown s' = pending_countdown s"
    using turn_off_frame [where tr = tr and s = s] by (simp_all add: s'_def)
  have a: "\<forall>h. auto_off_timer s = Some h \<and> h < next_handle s \<longrightarrow>
            h \<notin> fst ` set (scheduled s')"
    using turn_off_cancels_auto_off [where tr = tr and s = s] by (simp add: s'_def)
  have t: "timer_remaining (update_countdown s') =
         (if timer_remaining s > 0 then timer_remaining s - 1 else timer_remaining s)"
    "(countdown_timer (update_countdown s') \<noteq> None) = (timer_remaining s > 1)"
    "scheduled (update_countdown s') =
         (if timer_remaining s > 1
          then scheduled s' @ [(next_handle s', COUNTDOWN_INTERVAL, UpdateCountdown)]
          else scheduled s')"
    using update_countdown_remaining [where s = s'] update_countdown_timer [where s = s']
      update_countdown_scheduled [where s = s'] f(1)
    by simp_all
  have z: "countdown_timer (snd (notification_handler data s')) = None \<and>
               timer_remaining (snd (notification_handler data s')) = 0 \<and>
               (\<forall>h. countdown_timer s = Some h \<longrightarrow>
                    h \<notin> fst ` set (scheduled (snd (notification_handler data s'))) \<and>
                    (handles_ok s \<and> (\<forall>e \<in> set (pending_countdown s). fst e = h) \<longrightarrow>
                       pending_countdown (snd (notification_handler data s')) = []))"
    if d: "length data > 9 \<and> data ! 0 = 0x2A \<and> data ! 2 = 0x10 \<and>
               data ! 8 = 0 \<and> data ! 9 = 0 \<and> timer_remaining s > 0" for data
  proof -
    from d have d': "length data > 9" "data ! 0 = 0x2A" "data ! 2 = 0x10" "data ! 8 = 0"
      "data ! 9 = 0" "timer_remaining s' > 0"
      using f(1) by simp_all
    have 1: "countdown_timer (snd (notification_handler data s')) = None"
      "timer_remaining (snd (notification_handler data s')) = 0"
      using status_zero_stops_countdown [OF d'] by simp_all
    have 2: "h \<notin> fst ` set (scheduled (snd (notification_handler data s')))"
      if "countdown_timer s = Some h" for h
      using status_zero_no_countdown_pending(1) [OF d'] that f(3) by simp
    have 3: "pending_countdown (snd (notification_handler data s')) = []"
      if "countdown_timer s = Some h" "handles_ok s"
        "\<forall>e \<in> set (pending_countdown s). fst e = h" for h
      using status_zero_no_countdown_pending(2) [OF d', of h] that f(3,7) by simp
    from 1 2 3 show ?thesis by blast
  qed
  have r: "establish tr = None \<and> start_notify tr = None \<and> (\<forall>k. write_result tr k = None) \<longrightarrow>
          fst (async_turn_off tr s) = None \<and>
          trace s' = trace s @ connect_trace s @ [Write TURN_OFF_CMD, Sleep 500, Updated False None]"
    using turn_off_reliable [where tr = tr and s = s] by (simp add: s'_def)
  show ?thesis
    unfolding Let_def s'_def [symmetric] using f a t z r by blast
qed

theorem turn_off_keeps_countdown_witness:
  "handles_ok ex_counting_auto_off \<and>
   auto_off_timer ex_counting_auto_off = Some 1 \<and>
   (1, 900, AutoTurnOff) \<in> set (scheduled ex_counting_auto_off) \<and>
   fst (async_turn_off reliable ex_counting_auto_off) = None \<and>
   is_on ex_counting_auto_off \<and> \<not> is_on (snd (async_turn_off reliable ex_counting_auto_off)) \<and>
   auto_off_timer (snd (async_turn_off reliable ex_counting_auto_off)) = None \<and>
   1 \<notin> fst ` set (scheduled (snd (async_turn_off reliable ex_counting_auto_off))) \<and>
   timer_remaining (snd (async_turn_off reliable ex_counting_auto_off)) = 3 \<and>
   countdown_timer (snd (async_turn_off reliable ex_counting_auto_off)) = Some 0 \<and>
   pending_countdown (snd (async_turn_off reliable ex_counting_auto_off))
     = [(0, 1, UpdateCountdown)] \<and>
   timer_remaining (update_countdown (snd (async_turn_off reliable ex_counting_auto_off))) = 2 \<and>
   countdown_timer
     (snd (notification_handler [0x2A, 0x00, 0x10, 0x00, 0x00, 0x00, 0x00, 0x0F, 0x00, 0x00]
        (snd (async_turn_off reliable ex_counting_auto_off)))) = None \<and>
   0 \<notin> fst ` set (scheduled
     (snd (notification_handler [0x2A, 0x00, 0x10, 0x00, 0x00, 0x00, 0x00, 0x0F, 0x00, 0x00]
        (snd (async_turn_off reliable ex_counting_auto_off))))) \<and>
   pending_countdown
     (snd (notification_handler [0x2A, 0x00, 0x10, 0x00, 0x00, 0x00, 0x00, 0x0F, 0x00, 0x00]
        (snd (async_turn_off reliable ex_counting_auto_off)))) = [] \<and>
   frames (trace (snd (async_turn_off reliable ex_counting_auto_off))) = [TURN_OFF_CMD]"
proof -
  have h: "handles_ok ex_counting_auto_off"
    "\<forall>e \<in> set (pending_countdown ex_counting_auto_off). fst e = 0"
    by (simp_all add: handles_ok_def pending_countdown_def ex_counting_auto_off_def init_def)
  have rel: "establish reliable = None \<and> start_notify reliable = None \<and>
    (\<forall>k. write_result reliable k = None)"
    by (simp add: reliable_def)
  show ?thesis
    using turn_off_keeps_countdown [of reliable ex_counting_auto_off] h rel
    by (simp add: Let_def ex_counting_auto_off_def init_def pending_countdown_def
        connect_trace_def)
qed

section \<open>The remaining seconds\<close>

lemma then_do_keeps:
  assumes "\<And>s. v (snd (f s)) = v s" "\<And>s. v (snd (g s)) = v s"
  shows "v (snd (then_do f g s)) = v s"
proof (cases "f s")
  case (Pair r s')
  then have "v s' = v s" using assms(1) [of s] by simp
  with Pair assms(2) [of s'] show ?thesis
    by (cases r) (simp_all add: then_do_def)
qed

lemma returns_keeps: "(\<And>s. v (f s) = v s) \<Longrightarrow> v (snd (returns f s)) = v s"
  by (simp add: returns_def)

lemma send_command_remaining:
  "timer_remaining (snd (send_command tr command s)) = timer_remaining s"
  "timer_remaining (snd (async_connect tr s)) = timer_remaining s"
  "timer_remaining (snd (query_status tr s)) = timer_remaining s"
  using connect_view(3) [of tr command s, THEN device_viewD(2)]
    connect_view(1) [of tr s, THEN device_viewD(2)]
    connect_view(3) [of tr STATUS_QUERY_CMD s, THEN device_viewD(2)]
  by (simp_all add: query_status_def)

lemma async_disconnect_remaining:
  "timer_remaining (snd (async_disconnect s)) = timer_remaining s"
  by (cases "countdown_timer s = None")
    (simp_all add: async_disconnect_effect async_disconnect_skip)

lemma turn_on_remaining: "timer_remaining (snd (async_turn_on tr s)) = timer_remaining s"
  unfolding async_turn_on_def
proof (intro then_do_keeps returns_keeps)
  fix s' :: coordinator
  show "timer_remaining
        (snd ((if 0 < timer_duration s
               then \<lambda>s. case create_timer_command (timer_duration s) of
                         Inl e \<Rightarrow> (Some e, s)
                       | Inr timer_cmd \<Rightarrow>
                           then_do (send_command tr timer_cmd)
                             (then_do (returns (sleep 200)) (send_command tr TURN_ON_CMD)) s
               else send_command tr TURN_ON_CMD) s')) = timer_remaining s'"
  proof (cases "0 < timer_duration s")
    case False
    then show ?thesis by (simp add: send_command_remaining)
  next
    case True
    have "timer_remaining (snd (then_do (send_command tr c)
        (then_do (returns (sleep 200)) (send_command tr TURN_ON_CMD)) s')) = timer_remaining s'"
      for c
      by (intro then_do_keeps returns_keeps) (simp_all add: send_command_remaining sleep_def)
    with True show ?thesis by (simp split: sum.splits)
  qed
next
  fix s' :: coordinator
  show "timer_remaining (sleep 500 s') = timer_remaining s'" by (simp add: sleep_def)
  show "timer_remaining (async_set_updated_data True None (s'\<lparr>is_on := True\<rparr>))
      = timer_remaining s'"
    by (simp add: async_set_updated_data_def)
  show "timer_remaining (snd (if 0 < timer_duration s' then query_status tr s' else (None, s')))
      = timer_remaining s'"
    by (simp add: send_command_remaining)
  show "timer_remaining
        (case auto_off_timer s' of None \<Rightarrow> s'
         | Some h \<Rightarrow> (cancel h s')\<lparr>auto_off_timer := None\<rparr>) = timer_remaining s'"
    by (simp add: clear_auto_off_fields)
qed

lemma query_and_disconnect_remaining:
  "timer_remaining (snd (query_and_disconnect tr s)) = timer_remaining s"
proof -
  have "timer_remaining
      (snd (then_do (query_status tr) (then_do (returns (sleep 1000)) async_disconnect) s))
      = timer_remaining s"
    by (intro then_do_keeps returns_keeps)
      (simp_all add: send_command_remaining sleep_def async_disconnect_remaining)
  then show ?thesis
    by (cases "then_do (query_status tr) (then_do (returns (sleep 1000)) async_disconnect) s")
      (simp add: query_and_disconnect_def)
qed

lemma run_task_remaining: "timer_remaining (snd (run_task tr s)) = timer_remaining s"
  by (simp add: run_task_def async_disconnect_remaining query_and_disconnect_remaining
      auto_turn_off_def turn_off_frame split: list.splits task.splits)

lemma fire_timer_remaining:
  "timer_remaining (fire_timer h s) =
     timer_remaining s \<or> (0 < timer_remaining s \<and> timer_remaining (fire_timer h s) = timer_remaining s - 1)"
  by (auto simp: fire_timer_def update_countdown_remaining cancel_def create_task_def
      split: option.splits callback.splits)

lemma handler_remaining_nonneg:
  assumes "0 \<le> timer_remaining s"
  shows "0 \<le> timer_remaining (snd (notification_handler data s))"
proof (cases "length data < 3 \<or> data ! 0 \<noteq> 0x2A")
  case True
  then show ?thesis using assms handler_short handler_bad_start by auto
next
  case False
  then have d: "\<not> length data < 3" "data ! 0 = 0x2A" by auto
  consider "data ! 2 = 0x10" "length data > 9" | "data ! 2 = 0x10" "length data < 10"
    | "data ! 2 = 0x20" "length data > 5" | "data ! 2 = 0x20" "length data < 6"
    | "data ! 2 \<noteq> 0x10" "data ! 2 \<noteq> 0x20"
    by fastforce
  then show ?thesis
  proof cases
    case 1 then show ?thesis using d by (simp add: handler_status status_update_result)
  next
    case 2 then show ?thesis using assms by (simp add: handler_status_short)
  next
    case 3 then show ?thesis using d assms
      by (simp add: handler_power power_ack_def Let_def async_set_updated_data_def)
  next
    case 4 then show ?thesis using assms by (simp add: handler_power_short)
  next
    case 5 then show ?thesis using assms by (simp add: handler_other)
  qed
qed

lemma step_remaining_nonneg:
  assumes "0 \<le> timer_remaining s"
  shows "0 \<le> timer_remaining (snd (step tr op s))"
proof (cases op)
  case (TimerFires h)
  then show ?thesis using assms fire_timer_remaining [of h s] by auto
next
  case (Notification data)
  then show ?thesis using assms by (simp add: handler_remaining_nonneg)
qed (use assms in \<open>simp_all add: turn_on_remaining turn_off_frame send_command_remaining
    async_disconnect_remaining set_timer_duration_def disconnected_def
    update_countdown_remaining run_task_remaining\<close>)

lemma run_remaining_nonneg:
  "0 \<le> timer_remaining s \<Longrightarrow> 0 \<le> timer_remaining (run ops s)"
proof (induction ops arbitrary: s)
  case Nil
  then show ?case by simp
next
  case (Cons a ops)
  obtain tr op where a: "a = (tr, op)" by (cases a)
  show ?case
    unfolding a run.simps
    by (rule Cons.IH) (rule step_remaining_nonneg [OF Cons.prems])
qed

lemma ticks_remaining:
  "0 \<le> timer_remaining s \<Longrightarrow>
   timer_remaining ((update_countdown ^^ k) s) = max 0 (timer_remaining s - int k)"
proof (induction k)
  case 0
  then show ?case by simp
next
  case (Suc k)
  then show ?case by (simp add: update_countdown_remaining)
qed

lemma ex_started_eq:
  "ex_started = init\<lparr>is_on := True, timer_remaining := 3,
     trace := [Updated True (Some 3)], countdown_start_time := Some 0,
     scheduled := [(0, 1, UpdateCountdown)], next_handle := 1, countdown_timer := Some 0\<rparr>"
  by (simp add: ex_started_def handler_status status_update_def Let_def init_def
      async_set_updated_data_def start_countdown_def call_later_def COUNTDOWN_INTERVAL_def)

lemma countdown_from_three:
  "timer_remaining ex_started = 3 \<and> countdown_timer ex_started = Some 0 \<and>
   map timer_remaining
     [fire_timer 0 ex_started, fire_timer 1 (fire_timer 0 ex_started),
      fire_timer 2 (fire_timer 1 (fire_timer 0 ex_started))] = [2, 1, 0] \<and>
   map countdown_timer
     [fire_timer 0 ex_started, fire_timer 1 (fire_timer 0 ex_started),
      fire_timer 2 (fire_timer 1 (fire_timer 0 ex_started))] = [Some 1, Some 2, None] \<and>
   scheduled (fire_timer 2 (fire_timer 1 (fire_timer 0 ex_started))) = [] \<and>
   tasks (fire_timer 2 (fire_timer 1 (fire_timer 0 ex_started))) = [QueryAndDisconnectTask] \<and>
   updates (trace (fire_timer 2 (fire_timer 1 (fire_timer 0 ex_started)))) =
     [(True, Some 3), (True, Some 2), (True, Some 1), (True, Some 0)] \<and>
   timer_remaining (update_countdown (fire_timer 2 (fire_timer 1 (fire_timer 0 ex_started)))) = 0"
proof -
  define a where "a = fire_timer 0 ex_started"
  define b where "b = fire_timer 1 a"
  define c where "c = fire_timer 2 b"
  have a: "a = init\<lparr>is_on := True, timer_remaining := 2,
     trace := [Updated True (Some 3), Updated True (Some 2)], countdown_start_time := Some 0,
     scheduled := [(1, 1, UpdateCountdown)], next_handle := 2, countdown_timer := Some 1\<rparr>"
    unfolding a_def
    by (simp add: ex_started_eq fire_timer_def update_countdown_def cancel_def Let_def init_def
      async_set_updated_data_def call_later_def COUNTDOWN_INTERVAL_def create_task_def)
  have b: "b = init\<lparr>is_on := True, timer_remaining := 1,
     trace := [Updated True (Some 3), Updated True (Some 2), Updated True (Some 1)],
     countdown_start_time := Some 0,
     scheduled := [(2, 1, UpdateCountdown)], next_handle := 3, countdown_timer := Some 2\<rparr>"
    unfolding b_def a
    by (simp add: fire_timer_def update_countdown_def cancel_def Let_def init_def
      async_set_updated_data_def call_later_def COUNTDOWN_INTERVAL_def create_task_def)
  have c: "c = init\<lparr>is_on := True, timer_remaining := 0,
     trace := [Updated True (Some 3), Updated True (Some 2), Updated True (Some 1),
               Updated True (Some 0)],
     countdown_start_time := Some 0,
     scheduled := [], next_handle := 3, countdown_timer := None,
     tasks := [QueryAndDisconnectTask]\<rparr>"
    unfolding c_def b
    by (simp add: fire_timer_def update_countdown_def cancel_def Let_def init_def
      async_set_updated_data_def call_later_def COUNTDOWN_INTERVAL_def create_task_def)
  have "timer_remaining ex_started = 3 \<and> countdown_timer ex_started = Some 0 \<and>
   map timer_remaining [a, b, c] = [2, 1, 0] \<and>
   map countdown_timer [a, b, c] = [Some 1, Some 2, None] \<and>
   scheduled c = [] \<and> tasks c = [QueryAndDisconnectTask] \<and>
   updates (trace c) = [(True, Some 3), (True, Some 2), (True, Some 1), (True, Some 0)] \<and>
   timer_remaining (update_countdown c) = 0"
    by (simp add: a b c ex_started_eq init_def update_countdown_def)
  then show ?thesis
    unfolding c_def b_def a_def .
qed

text \<open>
  Claim C6. The remaining seconds are never negative: they are zero after \<open>__init__\<close>,
  no operation of the coordinator makes them negative, and so they are not negative after
  any run. A tick of the countdown takes exactly one second off while seconds are left and
  changes nothing otherwise, so \<open>k\<close> ticks leave \<open>max 0 (remaining - k)\<close>. The countdown
  started with three seconds goes through 2, 1 and 0 as its timer fires three times, and
  at 0 no countdown is left: the field is \<open>None\<close> and nothing is scheduled.
\<close>

theorem timer_remaining_never_negative:
  "0 \<le> timer_remaining init \<and>
   (0 \<le> timer_remaining s \<longrightarrow> 0 \<le> timer_remaining (snd (step tr op s))) \<and>
   0 \<le> timer_remaining (run ops init) \<and>
   timer_remaining (update_countdown s) =
     (if timer_remaining s > 0 then timer_remaining s - 1 else timer_remaining s) \<and>
   (0 \<le> timer_remaining s \<longrightarrow>
      timer_remaining ((update_countdown ^^ k) s) = max 0 (timer_remaining s - int k)) \<and>
   timer_remaining ex_started = 3 \<and> countdown_timer ex_started = Some 0 \<and>
   map timer_remaining
     [fire_timer 0 ex_started, fire_timer 1 (fire_timer 0 ex_started),
      fire_timer 2 (fire_timer 1 (fire_timer 0 ex_started))] = [2, 1, 0] \<and>
   map countdown_timer
     [fire_timer 0 ex_started, fire_timer 1 (fire_timer 0 ex_started),
      fire_timer 2 (fire_timer 1 (fire_timer 0 ex_started))] = [Some 1, Some 2, None] \<and>
   scheduled (fire_timer 2 (fire_timer 1 (fire_timer 0 ex_started))) = [] \<and>
   timer_remaining (update_countdown (fire_timer 2 (fire_timer 1 (fire_timer 0 ex_started)))) = 0"
proof -
  have i: "0 \<le> timer_remaining init" by (simp add: init_def)
  show ?thesis
    using i step_remaining_nonneg [of s tr op] run_remaining_nonneg [OF i, of ops]
      update_countdown_remaining [of s] ticks_remaining [of s k] countdown_from_three
    by blast
qed

theorem timer_remaining_never_negative_witness:
  "0 \<le> timer_remaining ex_counting \<and>
   0 \<le> timer_remaining (snd (step reliable TurnOff ex_counting)) \<and>
   0 \<le> timer_remaining
     (snd (step reliable
        (Notification [0x2A, 0x00, 0x10, 0x00, 0x00, 0x01, 0x00, 0x0F, 0xFF, 0xFF]) ex_counting)) \<and>
   timer_remaining (snd (step reliable Tick ex_counting)) = 2 \<and>
   timer_remaining ((update_countdown ^^ 5) ex_counting) = 0"
proof -
  have h: "0 \<le> timer_remaining ex_counting" "timer_remaining ex_counting = 3"
    by (simp_all add: ex_counting_def init_def)
  show ?thesis
    using timer_remaining_never_negative [of ex_counting reliable TurnOff "[]" 5]
      timer_remaining_never_negative
        [of ex_counting reliable
          "Notification [0x2A, 0x00, 0x10, 0x00, 0x00, 0x01, 0x00, 0x0F, 0xFF, 0xFF]" "[]" 5]
      h
    by simp
qed

end
